theory Spec2Isabelle
  imports Main
begin

section \<open>Data model of the authentication service\<close>

text \<open>
  The embedding follows \<^verbatim>\<open>src/lib/frontend-sdk/src/services/auth-service.ts\<close> and
  \<^verbatim>\<open>src/utils/password-hashing.ts\<close>. A JavaScript string is a \<open>string\<close> (a list of
  code units, here restricted to the 8-bit range), a timestamp in milliseconds is an
  \<open>int\<close>, an optional field is an \<open>option\<close>, and the \<^verbatim>\<open>Map\<close> of sessions is a partial
  function from session ids to sessions. Field names that occur in several interfaces
  (\<^verbatim>\<open>id\<close>, \<^verbatim>\<open>permissions\<close>) carry the name of their interface as a prefix. The
  optional \<^verbatim>\<open>metadata\<close> of \<^verbatim>\<open>UserInfo\<close> is never written by the code and is left out.
\<close>

record UserInfo =
  user_id :: string
  email :: "string option"
  name :: "string option"
  user_permissions :: "string list"
  roles :: "string list"

record Session =
  session_id :: string
  userId :: string
  user :: UserInfo
  createdAt :: int
  expiresAt :: int
  lastAccessedAt :: int
  session_permissions :: "string list"
  metadata :: "(string \<times> string) list"

record SessionManager =
  sessions :: "string \<rightharpoonup> Session"
  sessionTimeout :: int
  cleanupInterval :: int

subsection \<open>Rendering a number inside a template string\<close>

definition digit_char :: "nat \<Rightarrow> char" where
  "digit_char d = ''0123456789'' ! d"

function show_nat :: "nat \<Rightarrow> string" where
  "show_nat n = (if n < 10 then [digit_char n] else show_nat (n div 10) @ [digit_char (n mod 10)])"
  by pat_completeness auto
termination
  by (relation "measure (\<lambda>n. n)") auto

declare show_nat.simps [simp del]

definition show_int :: "int \<Rightarrow> string" where
  "show_int i = (if i < 0 then CHR ''-'' # show_nat (nat (- i)) else show_nat (nat i))"

section \<open>SessionManager\<close>

text \<open>
  Every method of the class reads the clock with \<^verbatim>\<open>Date.now()\<close>; \<^verbatim>\<open>createSession\<close>
  reads it twice (once inside the id, once for \<open>now\<close>) and draws one \<^verbatim>\<open>uuidv4()\<close>.
  The readings are parameters of the model, in the order the code takes them, and
  each method returns its result together with the manager after the call.
\<close>

definition createSession ::
  "SessionManager \<Rightarrow> UserInfo \<Rightarrow> string list \<Rightarrow> int \<Rightarrow> string \<Rightarrow> int \<Rightarrow> Session \<times> SessionManager" where
  "createSession sm u perms idTime uuid now =
     (let sessionId = ''session_'' @ show_int idTime @ ''_'' @ uuid;
          session = \<lparr> session_id = sessionId, userId = user_id u, user = u,
                      createdAt = now, expiresAt = now + sessionTimeout sm,
                      lastAccessedAt = now, session_permissions = perms, metadata = [] \<rparr>
      in (session, sm\<lparr> sessions := (sessions sm)(sessionId \<mapsto> session) \<rparr>))"

definition validateSession ::
  "SessionManager \<Rightarrow> string \<Rightarrow> int \<Rightarrow> Session option \<times> SessionManager" where
  "validateSession sm sessionId now =
     (case sessions sm sessionId of
        None \<Rightarrow> (None, sm)
      | Some session \<Rightarrow>
          if expiresAt session < now
          then (None, sm\<lparr> sessions := (sessions sm)(sessionId := None) \<rparr>)
          else (let session' = session\<lparr> lastAccessedAt := now \<rparr>
                in (Some session', sm\<lparr> sessions := (sessions sm)(sessionId \<mapsto> session') \<rparr>)))"




text \<open>The constructor: an empty table under the given configuration.\<close>

definition newSessionManager :: "int \<Rightarrow> int \<Rightarrow> SessionManager" where
  "newSessionManager timeout interval =
     \<lparr> sessions = Map.empty, sessionTimeout = timeout, cleanupInterval = interval \<rparr>"

subsection \<open>Sequences of operations on the session table\<close>







section \<open>AuthService\<close>

text \<open>
  The service holds its configuration and one \<open>SessionManager\<close>. What lies outside the
  repository is a parameter of the model: the clock behind \<^verbatim>\<open>Date.now()\<close> and
  \<^verbatim>\<open>new Date()\<close>, the generator behind \<^verbatim>\<open>uuidv4()\<close>, and the \<^verbatim>\<open>jsonwebtoken\<close>
  functions \<^verbatim>\<open>jwt.sign\<close> and \<^verbatim>\<open>jwt.verify\<close>, whose exceptions are the \<open>Inl\<close> results.
  The \<open>n\<close>-th reading of the clock is \<open>clock env n\<close>; the state counts the readings and
  draws made so far, and the calls of \<^verbatim>\<open>jwt.sign\<close>. An error's \<^verbatim>\<open>timestamp\<close> is the clock
  reading it is rendered from. The \<^verbatim>\<open>console.log\<close> calls have no effect on any result and
  are left out.
\<close>

record Argon2Config =
  memoryCost :: int
  timeCost :: int
  parallelism :: int
  hashLength :: int

record AuthServiceConfig =
  jwtSecret :: string
  jwtExpiresIn :: string
  argon2 :: Argon2Config
  config_sessionTimeout :: int
  enableLogging :: bool

record AuthRequest =
  req_method :: string
  apiKey :: "string option"
  req_token :: "string option"
  clientId :: "string option"
  clientSecret :: "string option"
  redirectUri :: "string option"
  provider :: "string option"
  req_permissions :: "string list option"

record AuthError =
  code :: string
  message :: string
  timestamp :: int

record AuthStep =
  step :: nat
  step_method :: string
  duration :: int
  step_success :: bool
  step_permissions :: "string list option"
  step_securityLevel :: string

record AuthResult =
  success :: bool
  res_sessionId :: "string option"
  token :: "string option"
  res_expiresAt :: "int option"
  res_permissions :: "string list option"
  res_user :: "UserInfo option"
  authSteps :: "AuthStep list option"
  totalDuration :: "int option"
  securityLevel :: "string option"
  error :: "AuthError option"

text \<open>The payload handed to \<^verbatim>\<open>jwt.sign\<close> and the claims \<^verbatim>\<open>jwt.verify\<close> decodes.\<close>

record JwtPayload =
  payload_userId :: string
  payload_permissions :: "string list"
  payload_sessionId :: string
  payload_provider :: "string option"

record JwtClaims =
  claim_userId :: string
  claim_permissions :: "string list option"
  claim_sessionId :: "string option"

record Env =
  clock :: "nat \<Rightarrow> int"
  uuidv4 :: "nat \<Rightarrow> string"
  jwt_sign :: "JwtPayload \<Rightarrow> string \<Rightarrow> string \<Rightarrow> string + string"
  jwt_verify :: "string \<Rightarrow> string \<Rightarrow> string + JwtClaims"

record AuthState =
  sessionManager :: SessionManager
  clockReads :: nat
  uuidDraws :: nat
  tokensSigned :: nat

definition newAuthService :: "AuthServiceConfig \<Rightarrow> AuthState" where
  "newAuthService cfg =
     \<lparr> sessionManager = newSessionManager (config_sessionTimeout cfg) (5 * 60 * 1000),
       clockReads = 0, uuidDraws = 0, tokensSigned = 0 \<rparr>"

definition dateNow :: "Env \<Rightarrow> AuthState \<Rightarrow> int \<times> AuthState" where
  "dateNow env st = (clock env (clockReads st), st\<lparr> clockReads := Suc (clockReads st) \<rparr>)"

definition drawUuid :: "Env \<Rightarrow> AuthState \<Rightarrow> string \<times> AuthState" where
  "drawUuid env st = (uuidv4 env (uuidDraws st), st\<lparr> uuidDraws := Suc (uuidDraws st) \<rparr>)"

text \<open>The calls \<^verbatim>\<open>this.sessionManager.createSession\<close> and \<^verbatim>\<open>validateSession\<close>, with their readings.\<close>

definition call_createSession ::
  "Env \<Rightarrow> UserInfo \<Rightarrow> string list \<Rightarrow> AuthState \<Rightarrow> Session \<times> AuthState" where
  "call_createSession env u perms st =
     (let (idTime, st1) = dateNow env st;
          (uuid, st2) = drawUuid env st1;
          (now, st3) = dateNow env st2;
          (session, sm') = createSession (sessionManager st3) u perms idTime uuid now
      in (session, st3\<lparr> sessionManager := sm' \<rparr>))"

definition call_validateSession ::
  "Env \<Rightarrow> string \<Rightarrow> AuthState \<Rightarrow> Session option \<times> AuthState" where
  "call_validateSession env sessionId st =
     (case sessions (sessionManager st) sessionId of
        None \<Rightarrow> (None, st)
      | Some _ \<Rightarrow>
          (let (now, st1) = dateNow env st;
               (r, sm') = validateSession (sessionManager st1) sessionId now
           in (r, st1\<lparr> sessionManager := sm' \<rparr>)))"

text \<open>JavaScript truthiness of an optional string, \<^verbatim>\<open>x || d\<close>, \<^verbatim>\<open>startsWith\<close> and \<^verbatim>\<open>slice(-n)\<close>.\<close>

definition truthy :: "string option \<Rightarrow> bool" where
  "truthy x = (case x of None \<Rightarrow> False | Some s \<Rightarrow> s \<noteq> [])"

definition orElse :: "string option \<Rightarrow> string \<Rightarrow> string" where
  "orElse x d = (if truthy x then the x else d)"

definition startsWith :: "string \<Rightarrow> string \<Rightarrow> bool" where
  "startsWith s p = (take (length p) s = p)"

definition sliceLast :: "nat \<Rightarrow> string \<Rightarrow> string" where
  "sliceLast n s = drop (length s - n) s"

definition failure :: "string \<Rightarrow> string \<Rightarrow> int \<Rightarrow> AuthResult" where
  "failure c m ts =
     \<lparr> success = False, res_sessionId = None, token = None, res_expiresAt = None,
       res_permissions = None, res_user = None, authSteps = None, totalDuration = None,
       securityLevel = None, error = Some \<lparr> code = c, message = m, timestamp = ts \<rparr> \<rparr>"

definition authenticateAPIKey ::
  "Env \<Rightarrow> AuthServiceConfig \<Rightarrow> string \<Rightarrow> string list \<Rightarrow> AuthState \<Rightarrow> AuthResult \<times> AuthState" where
  "authenticateAPIKey env cfg key requestedPermissions st =
     (if \<not> startsWith key ''agentui_'' \<or> length key < 32
      then (let (ts, st1) = dateNow env st
            in (failure ''INVALID_API_KEY_FORMAT''
                  (''API key must start with '' @ [CHR 0x22] @ ''agentui_'' @ [CHR 0x22]
                     @ '' and be at least 32 characters'') ts, st1))
      else
        (let isValidKey = (length key \<ge> 32 \<and> startsWith key ''agentui_'')
         in if \<not> isValidKey
            then (let (ts, st1) = dateNow env st
                  in (failure ''INVALID_API_KEY'' ''Invalid API key provided'' ts, st1))
            else
              (let u = \<lparr> user_id = ''user_'' @ sliceLast 8 key, email = None,
                         name = Some ''API Key User'',
                         user_permissions = (if length requestedPermissions > 0
                                             then requestedPermissions else [''basic'', ''read'']),
                         roles = [''api_user''] \<rparr>;
                   (session, st1) = call_createSession env u (user_permissions u) st;
                   payload = \<lparr> payload_userId = user_id u, payload_permissions = user_permissions u,
                               payload_sessionId = session_id session, payload_provider = None \<rparr>;
                   st2 = st1\<lparr> tokensSigned := Suc (tokensSigned st1) \<rparr>
               in case jwt_sign env payload (jwtSecret cfg) (jwtExpiresIn cfg) of
                    Inl msg \<Rightarrow>
                      (let (ts, st3) = dateNow env st2
                       in (failure ''API_KEY_AUTH_ERROR'' msg ts, st3))
                  | Inr tok \<Rightarrow>
                      (\<lparr> success = True, res_sessionId = Some (session_id session),
                         token = Some tok, res_expiresAt = Some (expiresAt session),
                         res_permissions = Some (user_permissions u), res_user = Some u,
                         authSteps = None, totalDuration = None, securityLevel = None,
                         error = None \<rparr>, st2))))"

text \<open>The \<^verbatim>\<open>user\<close> object \<^verbatim>\<open>authenticateJWT\<close> builds from the decoded claims.\<close>

definition jwtUser :: "JwtClaims \<Rightarrow> UserInfo" where
  "jwtUser decoded =
     \<lparr> user_id = claim_userId decoded, email = None, name = Some ''JWT User'',
       user_permissions = (case claim_permissions decoded of Some ps \<Rightarrow> ps | None \<Rightarrow> [''basic'']),
       roles = [''jwt_user''] \<rparr>"

definition authenticateJWT ::
  "Env \<Rightarrow> AuthServiceConfig \<Rightarrow> string \<Rightarrow> AuthState \<Rightarrow> AuthResult \<times> AuthState" where
  "authenticateJWT env cfg tok st =
     (case jwt_verify env tok (jwtSecret cfg) of
        Inl msg \<Rightarrow>
          (let (ts, st1) = dateNow env st
           in (failure ''INVALID_JWT_TOKEN'' ''Invalid or expired JWT token'' ts, st1))
      | Inr decoded \<Rightarrow>
          (let u = jwtUser decoded;
               (found, st1) = (if truthy (claim_sessionId decoded)
                               then call_validateSession env (the (claim_sessionId decoded)) st
                               else (None, st))
           in case found of
                Some session \<Rightarrow>
                  (\<lparr> success = True, res_sessionId = Some (session_id session),
                     token = Some tok, res_expiresAt = Some (expiresAt session),
                     res_permissions = Some (user_permissions u), res_user = Some u,
                     authSteps = None, totalDuration = None, securityLevel = None,
                     error = None \<rparr>, st1)
              | None \<Rightarrow>
                  (let (session, st2) = call_createSession env u (user_permissions u) st1
                   in (\<lparr> success = True, res_sessionId = Some (session_id session),
                          token = Some tok, res_expiresAt = Some (expiresAt session),
                          res_permissions = Some (user_permissions u), res_user = Some u,
                          authSteps = None, totalDuration = None, securityLevel = None,
                          error = None \<rparr>, st2))))"

record OAuth2Params =
  oauth2_clientId :: string
  oauth2_clientSecret :: string
  oauth2_redirectUri :: string
  oauth2_provider :: string

definition authenticateOAuth2 ::
  "Env \<Rightarrow> AuthServiceConfig \<Rightarrow> OAuth2Params \<Rightarrow> AuthState \<Rightarrow> AuthResult \<times> AuthState" where
  "authenticateOAuth2 env cfg config st =
     (let isValidOAuth2 = (length (oauth2_clientId config) > 0 \<and> length (oauth2_clientSecret config) > 0)
      in if \<not> isValidOAuth2
         then (let (ts, st1) = dateNow env st
               in (failure ''INVALID_OAUTH2_CREDENTIALS'' ''Invalid OAuth2 client credentials'' ts, st1))
         else
           (let u = \<lparr> user_id = ''oauth2_'' @ sliceLast 8 (oauth2_clientId config),
                      email = Some (''user@'' @ oauth2_provider config @ ''.com''),
                      name = Some (oauth2_provider config @ '' User''),
                      user_permissions = [''basic'', ''read'', ''write'', ''admin''],
                      roles = [''oauth2_user'', ''premium_user''] \<rparr>;
                (session, st1) = call_createSession env u (user_permissions u) st;
                payload = \<lparr> payload_userId = user_id u, payload_permissions = user_permissions u,
                            payload_sessionId = session_id session,
                            payload_provider = Some (oauth2_provider config) \<rparr>;
                st2 = st1\<lparr> tokensSigned := Suc (tokensSigned st1) \<rparr>
            in case jwt_sign env payload (jwtSecret cfg) (jwtExpiresIn cfg) of
                 Inl msg \<Rightarrow>
                   (let (ts, st3) = dateNow env st2
                    in (failure ''OAUTH2_AUTH_ERROR'' msg ts, st3))
               | Inr tok \<Rightarrow>
                   (\<lparr> success = True, res_sessionId = Some (session_id session),
                      token = Some tok, res_expiresAt = Some (expiresAt session),
                      res_permissions = Some (user_permissions u), res_user = Some u,
                      authSteps = None, totalDuration = None, securityLevel = None,
                      error = None \<rparr>, st2)))"

text \<open>
  \<^verbatim>\<open>authenticate\<close>. A \<^verbatim>\<open>return\<close> inside one of the three steps is the \<open>Some\<close> result of
  that step; otherwise control falls through to the next step with the steps recorded so
  far. \<^verbatim>\<open>totalDuration\<close> is still 0 whenever a step duration is computed. The tier functions
  turn their own exceptions into failure results, so the outer \<^verbatim>\<open>catch\<close> of the source
  is never entered and has no counterpart here.
\<close>

definition authenticate ::
  "Env \<Rightarrow> AuthServiceConfig \<Rightarrow> AuthRequest \<Rightarrow> AuthState \<Rightarrow> AuthResult \<times> AuthState" where
  "authenticate env cfg request st0 =
     (let (startTime, st1) = dateNow env st0;
          (returned1, authSteps1, st2) =
            (if req_method request = ''api-key'' \<and> truthy (apiKey request)
             then (let (apiKeyResult, sa) =
                         authenticateAPIKey env cfg (the (apiKey request))
                           (case req_permissions request of Some ps \<Rightarrow> ps | None \<Rightarrow> []) st1;
                       (t, sb) = dateNow env sa;
                       steps = [\<lparr> step = 1, step_method = ''api-key'', duration = t - startTime,
                                  step_success = success apiKeyResult,
                                  step_permissions = res_permissions apiKeyResult,
                                  step_securityLevel = ''basic'' \<rparr>]
                   in if success apiKeyResult
                      then (let (t', sc) = dateNow env sb
                            in (Some (apiKeyResult\<lparr> authSteps := Some steps,
                                        totalDuration := Some (t' - startTime),
                                        securityLevel := Some ''standard'' \<rparr>), steps, sc))
                      else (None, steps, sb))
             else (None, [], st1))
      in case returned1 of
           Some r \<Rightarrow> (r, st2)
         | None \<Rightarrow>
          (let (returned2, authSteps2, st3) =
                 (if req_method request = ''jwt'' \<and> truthy (req_token request)
                  then (let (jwtResult, sa) = authenticateJWT env cfg (the (req_token request)) st2;
                            (t, sb) = dateNow env sa;
                            steps = authSteps1 @
                              [\<lparr> step = 2, step_method = ''jwt'', duration = t - startTime - 0,
                                 step_success = success jwtResult,
                                 step_permissions = res_permissions jwtResult,
                                 step_securityLevel = ''standard'' \<rparr>]
                        in if success jwtResult
                           then (let (t', sc) = dateNow env sb
                                 in (Some (jwtResult\<lparr> authSteps := Some steps,
                                             totalDuration := Some (t' - startTime),
                                             securityLevel := Some ''high'' \<rparr>), steps, sc))
                           else (None, steps, sb))
                  else (None, authSteps1, st2))
           in case returned2 of
                Some r \<Rightarrow> (r, st3)
              | None \<Rightarrow>
                  (if req_method request = ''oauth2'' \<and> truthy (clientId request)
                        \<and> truthy (clientSecret request)
                   then (let (oauth2Result, sa) =
                               authenticateOAuth2 env cfg
                                 \<lparr> oauth2_clientId = the (clientId request),
                                   oauth2_clientSecret = the (clientSecret request),
                                   oauth2_redirectUri = orElse (redirectUri request) [],
                                   oauth2_provider = orElse (provider request) ''generic'' \<rparr> st3;
                             (t, sb) = dateNow env sa;
                             steps = authSteps2 @
                               [\<lparr> step = 3, step_method = ''oauth2'', duration = t - startTime - 0,
                                  step_success = success oauth2Result,
                                  step_permissions = res_permissions oauth2Result,
                                  step_securityLevel = ''enterprise'' \<rparr>];
                             (t', sc) = dateNow env sb
                         in (oauth2Result\<lparr> authSteps := Some steps,
                               totalDuration := Some (t' - startTime),
                               securityLevel := Some ''enterprise'' \<rparr>, sc))
                   else (let (t, sa) = dateNow env st3;
                             (ts, sb) = dateNow env sa
                         in ((failure ''AUTH_METHOD_REQUIRED'' ''Valid authentication method required'' ts)
                               \<lparr> authSteps := Some authSteps2, totalDuration := Some (t - startTime) \<rparr>,
                             sb)))))"

section \<open>Password utilities\<close>

text \<open>
  The \<^verbatim>\<open>argon2\<close> package is outside the repository. Its \<^verbatim>\<open>hash\<close> is a parameter of the
  model (\<open>Inl\<close> the message of the exception it throws). Its \<^verbatim>\<open>verify\<close> is described by two
  parameters: \<open>decode\<close> reads the cost parameters, the salt and the derived key out of a
  hash string (\<open>None\<close> when the string is malformed), and \<open>derive\<close> is the key derivation.
\<close>

record Argon2Options =
  opt_memoryCost :: int
  opt_timeCost :: int
  opt_parallelism :: int
  opt_hashLength :: int
  opt_saltLength :: int

record Argon2Lib =
  argon2_hash :: "string \<Rightarrow> Argon2Options \<Rightarrow> string + string"
  decode :: "string \<Rightarrow> (Argon2Options \<times> string \<times> string) option"
  derive :: "Argon2Options \<Rightarrow> string \<Rightarrow> string \<Rightarrow> string"

text \<open>
  Modelled from the spec: \<^verbatim>\<open>argon2.verify(hash, password)\<close> of the \<^verbatim>\<open>argon2\<close> package, which
  is not part of the repository. It throws on a hash string it cannot parse and otherwise
  tells whether the password re-derives the key embedded in the hash string under the
  embedded parameters and salt.
\<close>

definition argon2_verify :: "Argon2Lib \<Rightarrow> string \<Rightarrow> string \<Rightarrow> string + bool" where
  "argon2_verify lib h password =
     (case decode lib h of
        None \<Rightarrow> Inl ''invalid hash string''
      | Some (params, salt, key) \<Rightarrow> Inr (derive lib params salt password = key))"

text \<open>The property the spec names: the password re-derives the key embedded in the hash string.\<close>

definition rederives :: "Argon2Lib \<Rightarrow> string \<Rightarrow> string \<Rightarrow> bool" where
  "rederives lib password h =
     (case decode lib h of
        None \<Rightarrow> False
      | Some (params, salt, key) \<Rightarrow> derive lib params salt password = key)"

subsection \<open>\<^verbatim>\<open>src/utils/password-hashing.ts\<close>\<close>

definition ARGON2_CONFIG :: Argon2Options where
  "ARGON2_CONFIG = \<lparr> opt_memoryCost = 2 ^ 16, opt_timeCost = 3, opt_parallelism = 1,
                     opt_hashLength = 32, opt_saltLength = 16 \<rparr>"

text \<open>An exception thrown inside the \<^verbatim>\<open>try\<close> block reaches the \<^verbatim>\<open>catch\<close>, which throws anew.\<close>

definition hashPassword :: "Argon2Lib \<Rightarrow> string \<Rightarrow> string + string" where
  "hashPassword lib password =
     (case (if password = [] \<or> length password < 1
            then Inl ''Password cannot be empty''
            else argon2_hash lib password ARGON2_CONFIG) of
        Inl err \<Rightarrow> Inl ''Failed to hash password''
      | Inr hashedPassword \<Rightarrow> Inr hashedPassword)"

definition verifyPassword :: "Argon2Lib \<Rightarrow> string \<Rightarrow> string \<Rightarrow> string + bool" where
  "verifyPassword lib password hashedPassword =
     (case (if password = [] \<or> hashedPassword = []
            then Inr False
            else argon2_verify lib hashedPassword password) of
        Inl err \<Rightarrow> Inr False
      | Inr isValid \<Rightarrow> Inr isValid)"

subsection \<open>\<^verbatim>\<open>PasswordUtils\<close> of \<^verbatim>\<open>auth-service.ts\<close>\<close>

definition defaultConfig :: Argon2Config where
  "defaultConfig = \<lparr> memoryCost = 65536, timeCost = 3, parallelism = 4, hashLength = 32 \<rparr>"

text \<open>The options object \<^verbatim>\<open>PasswordUtils.hashPassword\<close> hands to \<^verbatim>\<open>argon2.hash\<close>.\<close>

definition hashOptions :: "Argon2Config option \<Rightarrow> Argon2Options" where
  "hashOptions config =
     (let argon2Config = (case config of Some c \<Rightarrow> c | None \<Rightarrow> defaultConfig)
      in \<lparr> opt_memoryCost = memoryCost argon2Config, opt_timeCost = timeCost argon2Config,
           opt_parallelism = parallelism argon2Config,
           opt_hashLength = hashLength argon2Config, opt_saltLength = 32 \<rparr>)"

definition PasswordUtils_hashPassword ::
  "Argon2Lib \<Rightarrow> string \<Rightarrow> Argon2Config option \<Rightarrow> string + string" where
  "PasswordUtils_hashPassword lib password config =
     (case argon2_hash lib password (hashOptions config) of
        Inl msg \<Rightarrow> Inl (''Password hashing failed: '' @ msg)
      | Inr h \<Rightarrow> Inr h)"

definition PasswordUtils_verifyPassword :: "Argon2Lib \<Rightarrow> string \<Rightarrow> string \<Rightarrow> string + bool" where
  "PasswordUtils_verifyPassword lib password h =
     (case argon2_verify lib h password of
        Inl msg \<Rightarrow> Inr False
      | Inr b \<Rightarrow> Inr b)"

subsection \<open>Password strength\<close>

record StrengthResult =
  score :: nat
  isValid :: bool
  feedback :: "string list"

text \<open>The character classes of the regular expressions, on code units.\<close>

definition isLower :: "char \<Rightarrow> bool" where
  "isLower c = (c \<in> set ''abcdefghijklmnopqrstuvwxyz'')"

definition isUpper :: "char \<Rightarrow> bool" where
  "isUpper c = (c \<in> set ''ABCDEFGHIJKLMNOPQRSTUVWXYZ'')"

definition isDigit :: "char \<Rightarrow> bool" where
  "isDigit c = (c \<in> set ''0123456789'')"

definition isSymbol :: "char \<Rightarrow> bool" where
  "isSymbol c = (\<not> isLower c \<and> \<not> isUpper c \<and> \<not> isDigit c)"

text \<open>The dot of a regular expression matches every code unit but a line terminator.\<close>

definition isLineTerminator :: "char \<Rightarrow> bool" where
  "isLineTerminator c = (c = CHR 0x0A \<or> c = CHR 0x0D)"

text \<open>\<^verbatim>\<open>/(.)\1{2,}/.test(s)\<close>: some position holds a dot-matched unit followed by two copies of it.\<close>

fun hasRepeat :: "string \<Rightarrow> bool" where
  "hasRepeat (a # b # c # rest) =
     ((\<not> isLineTerminator a \<and> a = b \<and> a = c) \<or> hasRepeat (b # c # rest))"
| "hasRepeat _ = False"

definition PasswordUtils_validatePasswordStrength :: "string \<Rightarrow> StrengthResult" where
  "PasswordUtils_validatePasswordStrength password =
     (let (score0, feedback0) = (0, []);
          (score1, feedback1) =
            (if length password \<ge> 12 then (score0 + 2, feedback0)
             else if length password \<ge> 8 then (score0 + 1, feedback0)
             else (score0, feedback0 @ [''Password should be at least 8 characters long'']));
          (score2, feedback2) =
            (if list_ex isLower password then (score1 + 1, feedback1)
             else (score1, feedback1 @ [''Include lowercase letters'']));
          (score3, feedback3) =
            (if list_ex isUpper password then (score2 + 1, feedback2)
             else (score2, feedback2 @ [''Include uppercase letters'']));
          (score4, feedback4) =
            (if list_ex isDigit password then (score3 + 1, feedback3)
             else (score3, feedback3 @ [''Include numbers'']));
          (score5, feedback5) =
            (if list_ex isSymbol password then (score4 + 1, feedback4)
             else (score4, feedback4 @ [''Include special characters'']));
          (score6, feedback6) =
            (if \<not> hasRepeat password then (score5 + 1, feedback5)
             else (score5, feedback5 @ [''Avoid repeating characters'']));
          valid = (score6 \<ge> 6)
      in \<lparr> score = score6, isValid = valid,
           feedback = (if valid then [''Password strength is good''] else feedback6) \<rparr>)"

definition validatePasswordStrength :: "string \<Rightarrow> StrengthResult" where
  "validatePasswordStrength password =
     (let (score0, feedback0) = (0, []);
          (score1, feedback1) =
            (if length password \<ge> 8 then (score0 + 1, feedback0)
             else (score0, feedback0 @ [''Password must be at least 8 characters long'']));
          score2 = (if length password \<ge> 12 then score1 + 1 else score1);
          (score3, feedback3) =
            (if list_ex isLower password then (score2 + 1, feedback1)
             else (score2, feedback1 @ [''Password must contain lowercase letters'']));
          (score4, feedback4) =
            (if list_ex isUpper password then (score3 + 1, feedback3)
             else (score3, feedback3 @ [''Password must contain uppercase letters'']));
          (score5, feedback5) =
            (if list_ex isDigit password then (score4 + 1, feedback4)
             else (score4, feedback4 @ [''Password must contain numbers'']));
          (score6, feedback6) =
            (if list_ex isSymbol password then (score5 + 1, feedback5)
             else (score5, feedback5 @ [''Password must contain special characters'']));
          (score7, feedback7) =
            (if \<not> hasRepeat password then (score6 + 1, feedback6)
             else (score6, feedback6 @ [''Password should not contain repeated characters'']));
          valid = (score7 \<ge> 5 \<and> length feedback7 = 0)
      in \<lparr> score = score7, isValid = valid, feedback = feedback7 \<rparr>)"

section \<open>Notions used to state the claims\<close>

text \<open>
  The requests whose structural validation fails, in the words of the spec: a credential
  field of the chosen method is missing or badly formed, or the method is not supported.
  For the method \<open>api-key\<close> the key is absent, empty, without the prefix \<open>agentui_\<close> or
  shorter than 32; for \<open>jwt\<close> the token is absent or empty; for \<open>oauth2\<close> one of client id,
  client secret, redirect URI and provider name is absent or empty; or the method is none
  of the three.
\<close>

definition structuralFailure :: "AuthRequest \<Rightarrow> bool" where
  "structuralFailure request =
     ((req_method request = ''api-key'' \<and>
         (\<not> truthy (apiKey request) \<or> \<not> startsWith (the (apiKey request)) ''agentui_''
            \<or> length (the (apiKey request)) < 32))
      \<or> (req_method request = ''jwt'' \<and> \<not> truthy (req_token request))
      \<or> (req_method request = ''oauth2'' \<and>
            (\<not> truthy (clientId request) \<or> \<not> truthy (clientSecret request)
               \<or> \<not> truthy (redirectUri request) \<or> \<not> truthy (provider request)))
      \<or> (req_method request \<noteq> ''api-key'' \<and> req_method request \<noteq> ''jwt''
            \<and> req_method request \<noteq> ''oauth2''))"

text \<open>
  The seven criteria of the strength score, as the spec lists them, with the run criterion
  as the regular expression decides it; the number of criteria a password meets; and the
  messages of the criteria it does not meet, for a table of criteria with messages.
\<close>

definition criteria :: "(string \<Rightarrow> bool) list" where
  "criteria = [\<lambda>p. 8 \<le> length p, \<lambda>p. 12 \<le> length p, list_ex isLower, list_ex isUpper,
               list_ex isDigit, list_ex isSymbol, \<lambda>p. \<not> hasRepeat p]"

definition criteriaMet :: "string \<Rightarrow> nat" where
  "criteriaMet p = length (filter (\<lambda>c. c p) criteria)"

definition unmet :: "((string \<Rightarrow> bool) \<times> string) list \<Rightarrow> string \<Rightarrow> string list" where
  "unmet ms p = map snd (filter (\<lambda>cm. \<not> fst cm p) ms)"

text \<open>The messages of \<^verbatim>\<open>PasswordUtils.validatePasswordStrength\<close>; length 12 has none.\<close>

definition PasswordUtils_messages :: "((string \<Rightarrow> bool) \<times> string) list" where
  "PasswordUtils_messages =
     [(\<lambda>p. 8 \<le> length p, ''Password should be at least 8 characters long''),
      (list_ex isLower, ''Include lowercase letters''),
      (list_ex isUpper, ''Include uppercase letters''),
      (list_ex isDigit, ''Include numbers''),
      (list_ex isSymbol, ''Include special characters''),
      (\<lambda>p. \<not> hasRepeat p, ''Avoid repeating characters'')]"

text \<open>The messages of \<^verbatim>\<open>validatePasswordStrength\<close> in \<^verbatim>\<open>password-hashing.ts\<close>.\<close>

definition messages :: "((string \<Rightarrow> bool) \<times> string) list" where
  "messages =
     [(\<lambda>p. 8 \<le> length p, ''Password must be at least 8 characters long''),
      (list_ex isLower, ''Password must contain lowercase letters''),
      (list_ex isUpper, ''Password must contain uppercase letters''),
      (list_ex isDigit, ''Password must contain numbers''),
      (list_ex isSymbol, ''Password must contain special characters''),
      (\<lambda>p. \<not> hasRepeat p, ''Password should not contain repeated characters'')]"

section \<open>Concrete inputs\<close>

definition sampleUser :: UserInfo where
  "sampleUser = \<lparr> user_id = ''user_1'', email = None, name = Some ''API Key User'',
       user_permissions = [''basic''], roles = [''api_user''] \<rparr>"

text \<open>A manager with a timeout of 1000 ms holding one session created at time 5000.\<close>

definition sm1 :: SessionManager where
  "sm1 = snd (createSession (newSessionManager 1000 300000) sampleUser [''basic''] 5000 ''u1'' 5000)"

definition sampleConfig :: AuthServiceConfig where
  "sampleConfig = \<lparr> jwtSecret = ''test-secret-key'', jwtExpiresIn = ''1h'',
       argon2 = \<lparr> memoryCost = 4096, timeCost = 2, parallelism = 2, hashLength = 32 \<rparr>,
       config_sessionTimeout = 1000, enableLogging = False \<rparr>"

text \<open>
  An environment whose clock starts at 5500 and advances by one per reading, whose signer
  always returns the token \<open>tok\<close>, and whose verifier accepts exactly that token, with the
  claims the API-key tier signs for the session of \<open>sm1\<close>.
\<close>

definition sampleEnv :: Env where
  "sampleEnv = \<lparr> clock = (\<lambda>n. 5500 + int n),
       uuidv4 = (\<lambda>n. ''uuid'' @ show_nat n),
       jwt_sign = (\<lambda>payload secret expiresIn. Inr ''tok''),
       jwt_verify = (\<lambda>tok secret.
          if tok = ''tok''
          then Inr \<lparr> claim_userId = ''user_1'', claim_permissions = Some [''basic''],
                     claim_sessionId = Some ''session_5000_u1'' \<rparr>
          else Inl ''jwt malformed'') \<rparr>"

definition sampleState :: AuthState where
  "sampleState = \<lparr> sessionManager = sm1, clockReads = 0, uuidDraws = 0, tokensSigned = 0 \<rparr>"

definition emptyState :: AuthState where
  "emptyState = newAuthService sampleConfig"

definition request0 :: AuthRequest where
  "request0 = \<lparr> req_method = [], apiKey = None, req_token = None, clientId = None,
       clientSecret = None, redirectUri = None, provider = None, req_permissions = None \<rparr>"

definition shortKeyRequest :: AuthRequest where
  "shortKeyRequest = request0\<lparr> req_method := ''api-key'', apiKey := Some ''short'' \<rparr>"

definition oauth2NoRedirect :: AuthRequest where
  "oauth2NoRedirect = request0\<lparr> req_method := ''oauth2'', clientId := Some ''client-12345'',
                                 clientSecret := Some ''s3cret'' \<rparr>"

definition oauth2NoClient :: AuthRequest where
  "oauth2NoClient = request0\<lparr> req_method := ''oauth2'', clientSecret := Some ''s3cret'',
                               redirectUri := Some ''https://app.example/cb'',
                               provider := Some ''github'' \<rparr>"

text \<open>
  A stand-in for the \<^verbatim>\<open>argon2\<close> package in the concrete examples. It keeps three traits of
  the package: \<open>hash\<close> accepts the empty password, \<open>hash\<close> rejects cost parameters that are
  not positive, and a string that is not one of its hash strings does not decode. Its
  key derivation is the identity and its hash string is the key behind a fixed prefix.
\<close>

definition toyArgon2 :: Argon2Lib where
  "toyArgon2 =
     \<lparr> argon2_hash = (\<lambda>password opts.
          if opt_memoryCost opts \<le> 0 \<or> opt_timeCost opts \<le> 0 \<or> opt_parallelism opts \<le> 0
               \<or> opt_hashLength opts \<le> 0
          then Inl ''Invalid parameters''
          else Inr (''$toy$'' @ password)),
       decode = (\<lambda>h. if take 5 h = ''$toy$'' then Some (ARGON2_CONFIG, [], drop 5 h) else None),
       derive = (\<lambda>params salt password. password) \<rparr>"

definition badConfig :: Argon2Config where
  "badConfig = \<lparr> memoryCost = - 1, timeCost = 0, parallelism = 0, hashLength = 0 \<rparr>"

text \<open>The same stand-in with a \<open>hash\<close> that accepts every password and every parameter.\<close>

definition lenientArgon2 :: Argon2Lib where
  "lenientArgon2 = toyArgon2\<lparr> argon2_hash := (\<lambda>password opts. Inr (''$toy$'' @ password)) \<rparr>"

text \<open>A signer that always throws, in an otherwise unchanged environment.\<close>

definition throwingEnv :: Env where
  "throwingEnv = sampleEnv\<lparr> jwt_sign := (\<lambda>payload secret expiresIn. Inl ''secretOrPrivateKey must have a value'') \<rparr>"

section \<open>The session table\<close>

lemma sm1_sessions:
  "sessions sm1 = [''session_5000_u1'' \<mapsto>
      \<lparr> session_id = ''session_5000_u1'', userId = ''user_1'', user = sampleUser, createdAt = 5000,
        expiresAt = 6000, lastAccessedAt = 5000, session_permissions = [''basic''], metadata = [] \<rparr>]"
  by (simp add: sm1_def createSession_def newSessionManager_def Let_def show_int_def show_nat.simps
        digit_char_def sampleUser_def)












text \<open>
  C1 (as amended). With \<open>sessionTimeout = 1000\<close>, a session created at time \<open>T\<close> is returned
  by every \<open>validateSession\<close> call at a time \<open>t \<le> T + 1000\<close> (with \<open>lastAccessedAt\<close> set to
  \<open>t\<close>), and every call at \<open>t \<ge> T + 1001\<close> removes the entry and returns no session. In
  general \<open>validateSession\<close> treats a stored session as expired exactly when
  \<open>expiresAt < now\<close>.
\<close>

theorem C1_expiry_boundary:
  assumes "sessionTimeout sm = 1000" and "createSession sm u perms idTime uuid T = (s, sm')"
  shows "(t \<le> T + 1000 \<longrightarrow>
            validateSession sm' (session_id s) t =
              (Some (s\<lparr> lastAccessedAt := t \<rparr>),
               sm'\<lparr> sessions := (sessions sm')(session_id s \<mapsto> s\<lparr> lastAccessedAt := t \<rparr>) \<rparr>))
       \<and> (T + 1001 \<le> t \<longrightarrow>
            validateSession sm' (session_id s) t =
              (None, sm'\<lparr> sessions := (sessions sm')(session_id s := None) \<rparr>))
       \<and> (\<forall>m k r now. sessions m k = Some r \<longrightarrow>
            (fst (validateSession m k now) = None) = (expiresAt r < now))"
  using assms
  by (auto simp add: validateSession_def createSession_def Let_def)

theorem C1_expiry_boundary_witness:
  "sessionTimeout (newSessionManager 1000 300000) = 1000
   \<and> fst (validateSession sm1 ''session_5000_u1'' 6000) \<noteq> None
   \<and> fst (validateSession sm1 ''session_5000_u1'' 6001) = None"
proof -
  let ?c = "createSession (newSessionManager 1000 300000) sampleUser [''basic''] 5000 ''u1'' 5000"
  have h1: "sessionTimeout (newSessionManager 1000 300000) = 1000"
    by (simp add: newSessionManager_def)
  have h2: "?c = (fst ?c, sm1)"
    by (simp add: sm1_def)
  have id: "session_id (fst ?c) = ''session_5000_u1''"
    by (simp add: createSession_def Let_def show_int_def show_nat.simps digit_char_def)
  from C1_expiry_boundary [OF h1 h2, of 6000] C1_expiry_boundary [OF h1 h2, of 6001] h1 id
  show ?thesis by simp
qed

text \<open>
  C1 as stated fails at the boundary: the session created at time 5000 with a timeout of
  1000 ms is still returned by a \<open>validateSession\<close> call at time 6000.
\<close>

theorem C1_counterexample:
  "fst (validateSession sm1 ''session_5000_u1'' (5000 + 1000)) =
     Some \<lparr> session_id = ''session_5000_u1'', userId = ''user_1'', user = sampleUser, createdAt = 5000,
            expiresAt = 6000, lastAccessedAt = 6000, session_permissions = [''basic''], metadata = [] \<rparr>"
  by (simp add: validateSession_def sm1_sessions Let_def)







section \<open>The authentication tiers\<close>

lemma failure_fields:
  "success (failure c m ts) = False" "token (failure c m ts) = None"
  "res_sessionId (failure c m ts) = None" "map_option code (error (failure c m ts)) = Some c"
  by (simp_all add: failure_def)

lemma apiKey_bad_format:
  "\<not> startsWith key ''agentui_'' \<or> length key < 32 \<Longrightarrow>
     authenticateAPIKey env cfg key perms st =
       (failure ''INVALID_API_KEY_FORMAT''
          (''API key must start with '' @ [CHR 0x22] @ ''agentui_'' @ [CHR 0x22]
             @ '' and be at least 32 characters'') (clock env (clockReads st)),
        st\<lparr> clockReads := Suc (clockReads st) \<rparr>)"
  by (auto simp add: authenticateAPIKey_def dateNow_def Let_def)

text \<open>When no step is entered, \<open>authenticate\<close> reads the clock three times and fails.\<close>

lemma authenticate_no_tier:
  assumes "\<not> (req_method request = ''api-key'' \<and> truthy (apiKey request))"
      and "\<not> (req_method request = ''jwt'' \<and> truthy (req_token request))"
      and "\<not> (req_method request = ''oauth2'' \<and> truthy (clientId request) \<and> truthy (clientSecret request))"
  shows "authenticate env cfg request st =
     ((failure ''AUTH_METHOD_REQUIRED'' ''Valid authentication method required''
          (clock env (Suc (Suc (clockReads st)))))
        \<lparr> authSteps := Some [],
          totalDuration := Some (clock env (Suc (clockReads st)) - clock env (clockReads st)) \<rparr>,
      st\<lparr> clockReads := Suc (Suc (Suc (clockReads st))) \<rparr>)"
proof -
  have a: "(req_method request = ''api-key'' \<and> truthy (apiKey request)) = False"
    using assms(1) by simp
  have b: "(req_method request = ''jwt'' \<and> truthy (req_token request)) = False"
    using assms(2) by simp
  have c: "(req_method request = ''oauth2'' \<and> truthy (clientId request) \<and> truthy (clientSecret request)) = False"
    using assms(3) by simp
  show ?thesis
    by (simp add: authenticate_def dateNow_def Let_def a b c)
qed

text \<open>
  A non-empty key of the wrong format enters step 1, whose failure is recorded as a step
  and then dropped: control falls through to the final \<^verbatim>\<open>return\<close>.
\<close>

lemma authenticate_bad_key:
  assumes "req_method request = ''api-key''" and "apiKey request = Some key" and "key \<noteq> []"
      and "\<not> startsWith key ''agentui_'' \<or> length key < 32"
  shows "authenticate env cfg request st =
     ((failure ''AUTH_METHOD_REQUIRED'' ''Valid authentication method required''
          (clock env (clockReads st + 4)))
        \<lparr> authSteps := Some [\<lparr> step = 1, step_method = ''api-key'',
                                 duration = clock env (clockReads st + 2) - clock env (clockReads st),
                                 step_success = False, step_permissions = None,
                                 step_securityLevel = ''basic'' \<rparr>],
          totalDuration := Some (clock env (clockReads st + 3) - clock env (clockReads st)) \<rparr>,
      st\<lparr> clockReads := clockReads st + 5 \<rparr>)"
  using assms
  by (simp add: authenticate_def apiKey_bad_format dateNow_def Let_def truthy_def failure_def
        eval_nat_numeral)

text \<open>
  C4 (what the code does). For a request with method \<open>api-key\<close> and a non-empty key that
  lacks the prefix \<open>agentui_\<close> or is shorter than 32, \<open>authenticate\<close> returns
  \<open>success = false\<close> with one failed step recorded, but its error code is
  \<open>AUTH_METHOD_REQUIRED\<close>; the code \<open>INVALID_API_KEY_FORMAT\<close> is only in the result of
  \<open>authenticateAPIKey\<close>, which \<open>authenticate\<close> does not return.
\<close>

theorem C4_bad_key_error_code:
  assumes "req_method request = ''api-key''" and "apiKey request = Some key" and "key \<noteq> []"
      and "\<not> startsWith key ''agentui_'' \<or> length key < 32"
  shows "success (fst (authenticate env cfg request st)) = False
       \<and> map_option code (error (fst (authenticate env cfg request st))) = Some ''AUTH_METHOD_REQUIRED''
       \<and> map_option (map step_success) (authSteps (fst (authenticate env cfg request st))) = Some [False]
       \<and> map_option code (error (fst (authenticateAPIKey env cfg key perms st'))) =
           Some ''INVALID_API_KEY_FORMAT''"
  using assms
  by (simp add: authenticate_bad_key apiKey_bad_format failure_def)

text \<open>The scenario of the spec: the key \<open>short\<close>.\<close>

theorem C4_bad_key_error_code_witness:
  "req_method shortKeyRequest = ''api-key'' \<and> apiKey shortKeyRequest = Some ''short''
   \<and> ''short'' \<noteq> [] \<and> length ''short'' < 32
   \<and> success (fst (authenticate sampleEnv sampleConfig shortKeyRequest sampleState)) = False
   \<and> map_option code (error (fst (authenticate sampleEnv sampleConfig shortKeyRequest sampleState))) =
       Some ''AUTH_METHOD_REQUIRED''"
proof -
  have h1: "req_method shortKeyRequest = ''api-key''"
    by (simp add: shortKeyRequest_def request0_def)
  have h2: "apiKey shortKeyRequest = Some ''short''"
    by (simp add: shortKeyRequest_def request0_def)
  have h3: "''short'' \<noteq> []" by simp
  have h4: "\<not> startsWith ''short'' ''agentui_'' \<or> length ''short'' < 32"
    by simp
  from C4_bad_key_error_code [OF h1 h2 h3 h4, where env = sampleEnv and cfg = sampleConfig
      and st = sampleState] h1 h2
  show ?thesis by simp
qed

text \<open>With client id and client secret present, step 3 is entered and its result returned.\<close>

lemma authenticate_oauth2_step:
  assumes "req_method request = ''oauth2''"
      and "clientId request = Some cid" "cid \<noteq> []"
      and "clientSecret request = Some secret" "secret \<noteq> []"
      and "authenticateOAuth2 env cfg
             \<lparr> oauth2_clientId = cid, oauth2_clientSecret = secret,
               oauth2_redirectUri = orElse (redirectUri request) [],
               oauth2_provider = orElse (provider request) ''generic'' \<rparr>
             (st\<lparr> clockReads := Suc (clockReads st) \<rparr>) = (r0, sa)"
  shows "authenticate env cfg request st =
          (r0\<lparr> authSteps := Some [\<lparr> step = 3, step_method = ''oauth2'',
                                     duration = clock env (clockReads sa) - clock env (clockReads st) - 0,
                                     step_success = success r0, step_permissions = res_permissions r0,
                                     step_securityLevel = ''enterprise'' \<rparr>],
                totalDuration := Some (clock env (Suc (clockReads sa)) - clock env (clockReads st)),
                securityLevel := Some ''enterprise'' \<rparr>,
           sa\<lparr> clockReads := Suc (Suc (clockReads sa)) \<rparr>)"
  using assms by (simp add: authenticate_def dateNow_def Let_def truthy_def)

text \<open>
  The OAuth2 tier with a non-empty client id and client secret: it creates and stores a
  session, calls \<^verbatim>\<open>jwt.sign\<close>, and its outcome is the outcome of \<^verbatim>\<open>jwt.sign\<close>.
\<close>

lemma oauth2_tier_outcome:
  assumes "cid \<noteq> []" "secret \<noteq> []"
      and "authenticateOAuth2 env cfg
             \<lparr> oauth2_clientId = cid, oauth2_clientSecret = secret,
               oauth2_redirectUri = uri, oauth2_provider = prov \<rparr> st = (r, st')"
  shows "let u = \<lparr> user_id = ''oauth2_'' @ sliceLast 8 cid,
                   email = Some (''user@'' @ prov @ ''.com''), name = Some (prov @ '' User''),
                   user_permissions = [''basic'', ''read'', ''write'', ''admin''],
                   roles = [''oauth2_user'', ''premium_user''] \<rparr>;
             sid = ''session_'' @ show_int (clock env (clockReads st)) @ ''_''
                     @ uuidv4 env (uuidDraws st);
             now = clock env (Suc (clockReads st));
             session = \<lparr> session_id = sid, userId = user_id u, user = u, createdAt = now,
                         expiresAt = now + sessionTimeout (sessionManager st),
                         lastAccessedAt = now, session_permissions = user_permissions u,
                         metadata = [] \<rparr>;
             payload = \<lparr> payload_userId = user_id u, payload_permissions = user_permissions u,
                         payload_sessionId = sid, payload_provider = Some prov \<rparr>
         in sessionManager st' =
              (sessionManager st)\<lparr> sessions := (sessions (sessionManager st))(sid \<mapsto> session) \<rparr>
          \<and> tokensSigned st' = Suc (tokensSigned st)
          \<and> uuidDraws st' = Suc (uuidDraws st)
          \<and> (case jwt_sign env payload (jwtSecret cfg) (jwtExpiresIn cfg) of
                Inr tok \<Rightarrow> success r \<and> token r = Some tok \<and> res_sessionId r = Some sid
                           \<and> res_user r = Some u
              | Inl msg \<Rightarrow> \<not> success r \<and> map_option code (error r) = Some ''OAUTH2_AUTH_ERROR''
                           \<and> token r = None \<and> res_sessionId r = None)"
  using assms
  by (auto simp add: authenticateOAuth2_def call_createSession_def createSession_def
        dateNow_def drawUuid_def failure_def Let_def split: sum.splits)

lemma authenticate_oauth2_outcome:
  assumes m: "req_method request = ''oauth2''"
      and cid: "clientId request = Some cid" "cid \<noteq> []"
      and sec: "clientSecret request = Some secret" "secret \<noteq> []"
  shows "let prov = orElse (provider request) ''generic'';
             u = \<lparr> user_id = ''oauth2_'' @ sliceLast 8 cid,
                   email = Some (''user@'' @ prov @ ''.com''), name = Some (prov @ '' User''),
                   user_permissions = [''basic'', ''read'', ''write'', ''admin''],
                   roles = [''oauth2_user'', ''premium_user''] \<rparr>;
             sid = ''session_'' @ show_int (clock env (Suc (clockReads st))) @ ''_''
                     @ uuidv4 env (uuidDraws st);
             now = clock env (Suc (Suc (clockReads st)));
             session = \<lparr> session_id = sid, userId = user_id u, user = u, createdAt = now,
                         expiresAt = now + sessionTimeout (sessionManager st),
                         lastAccessedAt = now, session_permissions = user_permissions u,
                         metadata = [] \<rparr>;
             payload = \<lparr> payload_userId = user_id u, payload_permissions = user_permissions u,
                         payload_sessionId = sid, payload_provider = Some prov \<rparr>;
             r = fst (authenticate env cfg request st);
             st' = snd (authenticate env cfg request st)
         in sessionManager st' =
              (sessionManager st)\<lparr> sessions := (sessions (sessionManager st))(sid \<mapsto> session) \<rparr>
          \<and> tokensSigned st' = Suc (tokensSigned st)
          \<and> uuidDraws st' = Suc (uuidDraws st)
          \<and> (case jwt_sign env payload (jwtSecret cfg) (jwtExpiresIn cfg) of
                Inr tok \<Rightarrow> success r \<and> token r = Some tok \<and> res_sessionId r = Some sid
                           \<and> res_user r = Some u
              | Inl msg \<Rightarrow> \<not> success r \<and> map_option code (error r) = Some ''OAUTH2_AUTH_ERROR''
                           \<and> token r = None \<and> res_sessionId r = None)"
proof -
  let ?st1 = "st\<lparr> clockReads := Suc (clockReads st) \<rparr>"
  let ?params = "\<lparr> oauth2_clientId = cid, oauth2_clientSecret = secret,
                   oauth2_redirectUri = orElse (redirectUri request) [],
                   oauth2_provider = orElse (provider request) ''generic'' \<rparr>"
  obtain r0 sa where r0: "authenticateOAuth2 env cfg ?params ?st1 = (r0, sa)"
    by (cases "authenticateOAuth2 env cfg ?params ?st1")
  note tier = oauth2_tier_outcome [OF cid(2) sec(2) r0]
  note whole = authenticate_oauth2_step [OF m cid sec r0]
  show ?thesis
    using tier unfolding whole Let_def by (simp split: sum.splits)
qed

text \<open>
  C5 (as amended). For every request whose structural validation fails, an OAuth2 request
  that carries client id and client secret apart, \<open>authenticate\<close> returns a failure result
  with neither session id nor token, and the call leaves the session manager unchanged,
  calls \<^verbatim>\<open>jwt.sign\<close> not once and draws no uuid. An OAuth2 request that carries client id
  and client secret is not validated further: whether or not its redirect URI and provider
  name are present, the call stores a new session, draws a uuid and calls \<^verbatim>\<open>jwt.sign\<close>.
\<close>

theorem C5_structural_failure_atomic:
  "(structuralFailure request
      \<and> \<not> (req_method request = ''oauth2'' \<and> truthy (clientId request) \<and> truthy (clientSecret request))
      \<longrightarrow>
      (case authenticate env cfg request st of
         (r, st') \<Rightarrow> success r = False \<and> token r = None \<and> res_sessionId r = None
           \<and> sessionManager st' = sessionManager st \<and> tokensSigned st' = tokensSigned st
           \<and> uuidDraws st' = uuidDraws st))
   \<and> (req_method request = ''oauth2'' \<and> truthy (clientId request) \<and> truthy (clientSecret request)
      \<longrightarrow>
      (case authenticate env cfg request st of
         (r, st') \<Rightarrow>
           sessions (sessionManager st')
             (''session_'' @ show_int (clock env (Suc (clockReads st))) @ ''_''
                @ uuidv4 env (uuidDraws st)) \<noteq> None
           \<and> tokensSigned st' = Suc (tokensSigned st)
           \<and> uuidDraws st' = Suc (uuidDraws st)))"
proof (rule conjI)
  show "structuralFailure request
      \<and> \<not> (req_method request = ''oauth2'' \<and> truthy (clientId request) \<and> truthy (clientSecret request))
      \<longrightarrow>
      (case authenticate env cfg request st of
         (r, st') \<Rightarrow> success r = False \<and> token r = None \<and> res_sessionId r = None
           \<and> sessionManager st' = sessionManager st \<and> tokensSigned st' = tokensSigned st
           \<and> uuidDraws st' = uuidDraws st)"
  proof (rule impI)
    assume h: "structuralFailure request
      \<and> \<not> (req_method request = ''oauth2'' \<and> truthy (clientId request) \<and> truthy (clientSecret request))"
    then have sf: "structuralFailure request"
      and c: "\<not> (req_method request = ''oauth2'' \<and> truthy (clientId request) \<and> truthy (clientSecret request))"
      by blast+
    show "case authenticate env cfg request st of
           (r, st') \<Rightarrow> success r = False \<and> token r = None \<and> res_sessionId r = None
             \<and> sessionManager st' = sessionManager st \<and> tokensSigned st' = tokensSigned st
             \<and> uuidDraws st' = uuidDraws st"
    proof (cases "req_method request = ''api-key'' \<and> truthy (apiKey request)")
      case True
      then obtain key where k: "apiKey request = Some key" "key \<noteq> []"
        by (auto simp add: truthy_def split: option.splits)
      with True sf have "\<not> startsWith key ''agentui_'' \<or> length key < 32"
        by (auto simp add: structuralFailure_def)
      with True k show ?thesis
        by (simp add: authenticate_bad_key failure_fields)
    next
      case False
      have b: "\<not> (req_method request = ''jwt'' \<and> truthy (req_token request))"
        using sf by (auto simp add: structuralFailure_def)
      show ?thesis
        by (simp add: authenticate_no_tier [OF False b c] failure_fields)
    qed
  qed
  show "req_method request = ''oauth2'' \<and> truthy (clientId request) \<and> truthy (clientSecret request)
      \<longrightarrow>
      (case authenticate env cfg request st of
         (r, st') \<Rightarrow>
           sessions (sessionManager st')
             (''session_'' @ show_int (clock env (Suc (clockReads st))) @ ''_''
                @ uuidv4 env (uuidDraws st)) \<noteq> None
           \<and> tokensSigned st' = Suc (tokensSigned st)
           \<and> uuidDraws st' = Suc (uuidDraws st))"
  proof (rule impI)
    assume h: "req_method request = ''oauth2'' \<and> truthy (clientId request) \<and> truthy (clientSecret request)"
    then obtain cid secret where ids: "clientId request = Some cid" "cid \<noteq> []"
        "clientSecret request = Some secret" "secret \<noteq> []"
      by (auto simp add: truthy_def split: option.splits)
    from h have m: "req_method request = ''oauth2''" by blast
    from authenticate_oauth2_outcome [OF m ids, of env st cfg]
    show "case authenticate env cfg request st of
         (r, st') \<Rightarrow>
           sessions (sessionManager st')
             (''session_'' @ show_int (clock env (Suc (clockReads st))) @ ''_''
                @ uuidv4 env (uuidDraws st)) \<noteq> None
           \<and> tokensSigned st' = Suc (tokensSigned st)
           \<and> uuidDraws st' = Suc (uuidDraws st)"
      by (simp add: Let_def split_beta)
  qed
qed

lemma sample_ids: "show_int (clock sampleEnv (Suc 0)) = ''5501''" "uuidv4 sampleEnv 0 = ''uuid0''"
  "show_int (clock throwingEnv (Suc 0)) = ''5501''" "uuidv4 throwingEnv 0 = ''uuid0''"
  by (simp_all add: sampleEnv_def throwingEnv_def show_int_def show_nat.simps digit_char_def)

lemma oauth2NoRedirect_fields:
  "req_method oauth2NoRedirect = ''oauth2''" "clientId oauth2NoRedirect = Some ''client-12345''"
  "clientSecret oauth2NoRedirect = Some ''s3cret''" "redirectUri oauth2NoRedirect = None"
  "provider oauth2NoRedirect = None"
  by (simp_all add: oauth2NoRedirect_def request0_def)

theorem C5_structural_failure_atomic_witness:
  "structuralFailure shortKeyRequest
   \<and> req_method shortKeyRequest \<noteq> ''oauth2''
   \<and> success (fst (authenticate sampleEnv sampleConfig shortKeyRequest sampleState)) = False
   \<and> sessionManager (snd (authenticate sampleEnv sampleConfig shortKeyRequest sampleState)) = sm1
   \<and> tokensSigned (snd (authenticate sampleEnv sampleConfig shortKeyRequest sampleState)) = 0
   \<and> req_method oauth2NoRedirect = ''oauth2'' \<and> truthy (clientId oauth2NoRedirect)
   \<and> truthy (clientSecret oauth2NoRedirect)
   \<and> sessions (sessionManager (snd (authenticate sampleEnv sampleConfig oauth2NoRedirect sampleState)))
        ''session_5501_uuid0'' \<noteq> None
   \<and> tokensSigned (snd (authenticate sampleEnv sampleConfig oauth2NoRedirect sampleState)) = 1"
proof -
  have h: "structuralFailure shortKeyRequest"
    by (simp add: structuralFailure_def shortKeyRequest_def request0_def truthy_def startsWith_def)
  have n: "req_method shortKeyRequest \<noteq> ''oauth2''"
    by (simp add: shortKeyRequest_def request0_def)
  have t: "truthy (clientId oauth2NoRedirect)" "truthy (clientSecret oauth2NoRedirect)"
    by (simp_all add: oauth2NoRedirect_fields truthy_def)
  note inst1 = C5_structural_failure_atomic [where env = sampleEnv and cfg = sampleConfig
      and st = sampleState and request = shortKeyRequest]
  note inst2 = C5_structural_failure_atomic [where env = sampleEnv and cfg = sampleConfig
      and st = sampleState and request = oauth2NoRedirect]
  from inst1 h n
  have a: "success (fst (authenticate sampleEnv sampleConfig shortKeyRequest sampleState)) = False
         \<and> sessionManager (snd (authenticate sampleEnv sampleConfig shortKeyRequest sampleState)) =
             sessionManager sampleState
         \<and> tokensSigned (snd (authenticate sampleEnv sampleConfig shortKeyRequest sampleState)) =
             tokensSigned sampleState"
    by (simp add: split_beta)
  from inst2 t
  have b: "sessions (sessionManager (snd (authenticate sampleEnv sampleConfig oauth2NoRedirect sampleState)))
             (''session_'' @ show_int (clock sampleEnv (Suc (clockReads sampleState))) @ ''_''
                @ uuidv4 sampleEnv (uuidDraws sampleState)) \<noteq> None
         \<and> tokensSigned (snd (authenticate sampleEnv sampleConfig oauth2NoRedirect sampleState)) =
             Suc (tokensSigned sampleState)"
    by (simp add: split_beta oauth2NoRedirect_fields)
  have st: "clockReads sampleState = 0" "uuidDraws sampleState = 0" "tokensSigned sampleState = 0"
    "sessionManager sampleState = sm1"
    by (simp_all add: sampleState_def)
  from h n a b t show ?thesis
    by (simp add: st sample_ids oauth2NoRedirect_fields)
qed

text \<open>
  C5 as stated fails for an OAuth2 request without redirect URI and provider name. Its
  structural validation fails in the sense of the spec, yet the call succeeds, stores a
  session that was not in the table and returns a signed token; and when \<^verbatim>\<open>jwt.sign\<close>
  throws, the call fails and the session it stored stays in the table.
\<close>

theorem C5_counterexample:
  "structuralFailure oauth2NoRedirect
   \<and> sessions (sessionManager sampleState) ''session_5501_uuid0'' = None
   \<and> success (fst (authenticate sampleEnv sampleConfig oauth2NoRedirect sampleState))
   \<and> token (fst (authenticate sampleEnv sampleConfig oauth2NoRedirect sampleState)) = Some ''tok''
   \<and> sessions (sessionManager (snd (authenticate sampleEnv sampleConfig oauth2NoRedirect sampleState)))
        ''session_5501_uuid0'' \<noteq> None
   \<and> tokensSigned (snd (authenticate sampleEnv sampleConfig oauth2NoRedirect sampleState)) = 1
   \<and> success (fst (authenticate throwingEnv sampleConfig oauth2NoRedirect sampleState)) = False
   \<and> sessions (sessionManager (snd (authenticate throwingEnv sampleConfig oauth2NoRedirect sampleState)))
        ''session_5501_uuid0'' \<noteq> None"
proof -
  have h: "structuralFailure oauth2NoRedirect"
    by (simp add: structuralFailure_def oauth2NoRedirect_fields truthy_def)
  have st: "clockReads sampleState = 0" "uuidDraws sampleState = 0" "tokensSigned sampleState = 0"
    "sessionManager sampleState = sm1"
    by (simp_all add: sampleState_def)
  have e: "sessions (sessionManager sampleState) ''session_5501_uuid0'' = None"
    by (simp add: st sm1_sessions)
  have s1: "\<And>p. jwt_sign sampleEnv p (jwtSecret sampleConfig) (jwtExpiresIn sampleConfig) = Inr ''tok''"
    by (simp add: sampleEnv_def)
  have s2: "\<And>p. jwt_sign throwingEnv p (jwtSecret sampleConfig) (jwtExpiresIn sampleConfig) =
               Inl ''secretOrPrivateKey must have a value''"
    by (simp add: throwingEnv_def)
  from authenticate_oauth2_outcome [OF oauth2NoRedirect_fields(1) oauth2NoRedirect_fields(2) _
      oauth2NoRedirect_fields(3), of sampleEnv sampleState sampleConfig]
  have a: "success (fst (authenticate sampleEnv sampleConfig oauth2NoRedirect sampleState))
   \<and> token (fst (authenticate sampleEnv sampleConfig oauth2NoRedirect sampleState)) = Some ''tok''
   \<and> sessions (sessionManager (snd (authenticate sampleEnv sampleConfig oauth2NoRedirect sampleState)))
        ''session_5501_uuid0'' \<noteq> None
   \<and> tokensSigned (snd (authenticate sampleEnv sampleConfig oauth2NoRedirect sampleState)) = 1"
    by (simp add: Let_def s1 st sample_ids)
  from authenticate_oauth2_outcome [OF oauth2NoRedirect_fields(1) oauth2NoRedirect_fields(2) _
      oauth2NoRedirect_fields(3), of throwingEnv sampleState sampleConfig]
  have b: "success (fst (authenticate throwingEnv sampleConfig oauth2NoRedirect sampleState)) = False
   \<and> sessions (sessionManager (snd (authenticate throwingEnv sampleConfig oauth2NoRedirect sampleState)))
        ''session_5501_uuid0'' \<noteq> None"
    by (simp add: Let_def s2 st sample_ids)
  from h e a b show ?thesis by simp
qed

text \<open>
  C6 (as amended). For every request with method \<open>oauth2\<close>: if the client id or the client
  secret is empty or absent, \<open>authenticate\<close> fails with the code \<open>AUTH_METHOD_REQUIRED\<close>,
  returns neither session id nor token, and leaves the session manager and the count of
  signed tokens unchanged. If both are present, the redirect URI and the provider name
  are not required: an empty or absent provider name is replaced by \<open>generic\<close>, a session
  for the synthesized user is stored, and \<^verbatim>\<open>jwt.sign\<close> is called once; when it returns a
  token the call succeeds with that token and the id of the stored session, and when it
  throws the call fails with the code \<open>OAUTH2_AUTH_ERROR\<close> and returns neither session id
  nor token.
\<close>

theorem C6_oauth2_precondition:
  assumes "req_method request = ''oauth2''"
  shows "(\<not> truthy (clientId request) \<or> \<not> truthy (clientSecret request) \<longrightarrow>
            (case authenticate env cfg request st of
               (r, st') \<Rightarrow> success r = False \<and> map_option code (error r) = Some ''AUTH_METHOD_REQUIRED''
                 \<and> token r = None \<and> res_sessionId r = None
                 \<and> sessionManager st' = sessionManager st \<and> tokensSigned st' = tokensSigned st))
       \<and> (truthy (clientId request) \<and> truthy (clientSecret request) \<longrightarrow>
            (let prov = orElse (provider request) ''generic'';
                 u = \<lparr> user_id = ''oauth2_'' @ sliceLast 8 (the (clientId request)),
                       email = Some (''user@'' @ prov @ ''.com''), name = Some (prov @ '' User''),
                       user_permissions = [''basic'', ''read'', ''write'', ''admin''],
                       roles = [''oauth2_user'', ''premium_user''] \<rparr>;
                 sid = ''session_'' @ show_int (clock env (Suc (clockReads st))) @ ''_''
                         @ uuidv4 env (uuidDraws st);
                 now = clock env (Suc (Suc (clockReads st)));
                 session = \<lparr> session_id = sid, userId = user_id u, user = u, createdAt = now,
                             expiresAt = now + sessionTimeout (sessionManager st),
                             lastAccessedAt = now, session_permissions = user_permissions u,
                             metadata = [] \<rparr>;
                 payload = \<lparr> payload_userId = user_id u, payload_permissions = user_permissions u,
                             payload_sessionId = sid, payload_provider = Some prov \<rparr>;
                 r = fst (authenticate env cfg request st);
                 st' = snd (authenticate env cfg request st)
             in sessions (sessionManager st') sid = Some session
              \<and> tokensSigned st' = Suc (tokensSigned st)
              \<and> (case jwt_sign env payload (jwtSecret cfg) (jwtExpiresIn cfg) of
                    Inr tok \<Rightarrow> success r \<and> token r = Some tok \<and> res_sessionId r = Some sid
                               \<and> res_user r = Some u
                  | Inl msg \<Rightarrow> \<not> success r \<and> map_option code (error r) = Some ''OAUTH2_AUTH_ERROR''
                               \<and> token r = None \<and> res_sessionId r = None)))"
proof (rule conjI)
  show "\<not> truthy (clientId request) \<or> \<not> truthy (clientSecret request) \<longrightarrow>
            (case authenticate env cfg request st of
               (r, st') \<Rightarrow> success r = False \<and> map_option code (error r) = Some ''AUTH_METHOD_REQUIRED''
                 \<and> token r = None \<and> res_sessionId r = None
                 \<and> sessionManager st' = sessionManager st \<and> tokensSigned st' = tokensSigned st)"
  proof (rule impI)
    assume m: "\<not> truthy (clientId request) \<or> \<not> truthy (clientSecret request)"
    have a: "\<not> (req_method request = ''api-key'' \<and> truthy (apiKey request))"
      using assms by simp
    have b: "\<not> (req_method request = ''jwt'' \<and> truthy (req_token request))"
      using assms by simp
    have c: "\<not> (req_method request = ''oauth2'' \<and> truthy (clientId request) \<and> truthy (clientSecret request))"
      using m by blast
    show "case authenticate env cfg request st of
               (r, st') \<Rightarrow> success r = False \<and> map_option code (error r) = Some ''AUTH_METHOD_REQUIRED''
                 \<and> token r = None \<and> res_sessionId r = None
                 \<and> sessionManager st' = sessionManager st \<and> tokensSigned st' = tokensSigned st"
      by (simp add: authenticate_no_tier [OF a b c] failure_def)
  qed
  show "truthy (clientId request) \<and> truthy (clientSecret request) \<longrightarrow>
            (let prov = orElse (provider request) ''generic'';
                 u = \<lparr> user_id = ''oauth2_'' @ sliceLast 8 (the (clientId request)),
                       email = Some (''user@'' @ prov @ ''.com''), name = Some (prov @ '' User''),
                       user_permissions = [''basic'', ''read'', ''write'', ''admin''],
                       roles = [''oauth2_user'', ''premium_user''] \<rparr>;
                 sid = ''session_'' @ show_int (clock env (Suc (clockReads st))) @ ''_''
                         @ uuidv4 env (uuidDraws st);
                 now = clock env (Suc (Suc (clockReads st)));
                 session = \<lparr> session_id = sid, userId = user_id u, user = u, createdAt = now,
                             expiresAt = now + sessionTimeout (sessionManager st),
                             lastAccessedAt = now, session_permissions = user_permissions u,
                             metadata = [] \<rparr>;
                 payload = \<lparr> payload_userId = user_id u, payload_permissions = user_permissions u,
                             payload_sessionId = sid, payload_provider = Some prov \<rparr>;
                 r = fst (authenticate env cfg request st);
                 st' = snd (authenticate env cfg request st)
             in sessions (sessionManager st') sid = Some session
              \<and> tokensSigned st' = Suc (tokensSigned st)
              \<and> (case jwt_sign env payload (jwtSecret cfg) (jwtExpiresIn cfg) of
                    Inr tok \<Rightarrow> success r \<and> token r = Some tok \<and> res_sessionId r = Some sid
                               \<and> res_user r = Some u
                  | Inl msg \<Rightarrow> \<not> success r \<and> map_option code (error r) = Some ''OAUTH2_AUTH_ERROR''
                               \<and> token r = None \<and> res_sessionId r = None))"
  proof (rule impI)
    assume h: "truthy (clientId request) \<and> truthy (clientSecret request)"
    then obtain cid secret where ids: "clientId request = Some cid" "cid \<noteq> []"
        "clientSecret request = Some secret" "secret \<noteq> []"
      by (auto simp add: truthy_def split: option.splits)
    from authenticate_oauth2_outcome [OF assms ids, of env st cfg]
    show "let prov = orElse (provider request) ''generic'';
                 u = \<lparr> user_id = ''oauth2_'' @ sliceLast 8 (the (clientId request)),
                       email = Some (''user@'' @ prov @ ''.com''), name = Some (prov @ '' User''),
                       user_permissions = [''basic'', ''read'', ''write'', ''admin''],
                       roles = [''oauth2_user'', ''premium_user''] \<rparr>;
                 sid = ''session_'' @ show_int (clock env (Suc (clockReads st))) @ ''_''
                         @ uuidv4 env (uuidDraws st);
                 now = clock env (Suc (Suc (clockReads st)));
                 session = \<lparr> session_id = sid, userId = user_id u, user = u, createdAt = now,
                             expiresAt = now + sessionTimeout (sessionManager st),
                             lastAccessedAt = now, session_permissions = user_permissions u,
                             metadata = [] \<rparr>;
                 payload = \<lparr> payload_userId = user_id u, payload_permissions = user_permissions u,
                             payload_sessionId = sid, payload_provider = Some prov \<rparr>;
                 r = fst (authenticate env cfg request st);
                 st' = snd (authenticate env cfg request st)
             in sessions (sessionManager st') sid = Some session
              \<and> tokensSigned st' = Suc (tokensSigned st)
              \<and> (case jwt_sign env payload (jwtSecret cfg) (jwtExpiresIn cfg) of
                    Inr tok \<Rightarrow> success r \<and> token r = Some tok \<and> res_sessionId r = Some sid
                               \<and> res_user r = Some u
                  | Inl msg \<Rightarrow> \<not> success r \<and> map_option code (error r) = Some ''OAUTH2_AUTH_ERROR''
                               \<and> token r = None \<and> res_sessionId r = None)"
      by (simp add: Let_def ids)
  qed
qed

theorem C6_oauth2_precondition_witness:
  "req_method oauth2NoClient = ''oauth2'' \<and> \<not> truthy (clientId oauth2NoClient)
   \<and> success (fst (authenticate sampleEnv sampleConfig oauth2NoClient sampleState)) = False
   \<and> req_method oauth2NoRedirect = ''oauth2'' \<and> truthy (clientId oauth2NoRedirect)
   \<and> truthy (clientSecret oauth2NoRedirect)
   \<and> success (fst (authenticate sampleEnv sampleConfig oauth2NoRedirect sampleState))
   \<and> map_option name (res_user (fst (authenticate sampleEnv sampleConfig oauth2NoRedirect sampleState))) =
       Some (Some ''generic User'')
   \<and> map_option code (error (fst (authenticate throwingEnv sampleConfig oauth2NoRedirect sampleState))) =
       Some ''OAUTH2_AUTH_ERROR''
   \<and> sessions (sessionManager (snd (authenticate throwingEnv sampleConfig oauth2NoRedirect sampleState)))
       ''session_5501_uuid0'' \<noteq> None"
proof -
  have h1: "req_method oauth2NoClient = ''oauth2''"
    by (simp add: oauth2NoClient_def request0_def)
  have n1: "\<not> truthy (clientId oauth2NoClient)"
    by (simp add: oauth2NoClient_def request0_def truthy_def)
  have h2: "req_method oauth2NoRedirect = ''oauth2''"
    by (simp add: oauth2NoRedirect_fields)
  have t2: "truthy (clientId oauth2NoRedirect)" "truthy (clientSecret oauth2NoRedirect)"
    by (simp_all add: oauth2NoRedirect_fields truthy_def)
  have st: "clockReads sampleState = 0" "uuidDraws sampleState = 0"
    by (simp_all add: sampleState_def)
  have s1: "\<And>p. jwt_sign sampleEnv p (jwtSecret sampleConfig) (jwtExpiresIn sampleConfig) = Inr ''tok''"
    by (simp add: sampleEnv_def)
  have s2: "\<And>p. jwt_sign throwingEnv p (jwtSecret sampleConfig) (jwtExpiresIn sampleConfig) =
               Inl ''secretOrPrivateKey must have a value''"
    by (simp add: throwingEnv_def)
  have g: "orElse (provider oauth2NoRedirect) ''generic'' = ''generic''"
    by (simp add: orElse_def truthy_def oauth2NoRedirect_fields)
  from C6_oauth2_precondition [OF h1, where env = sampleEnv and cfg = sampleConfig
      and st = sampleState] n1
  have a: "success (fst (authenticate sampleEnv sampleConfig oauth2NoClient sampleState)) = False"
    by (simp add: split_beta)
  from C6_oauth2_precondition [OF h2, where env = sampleEnv and cfg = sampleConfig
      and st = sampleState] t2
  have b: "success (fst (authenticate sampleEnv sampleConfig oauth2NoRedirect sampleState))
     \<and> map_option name (res_user (fst (authenticate sampleEnv sampleConfig oauth2NoRedirect sampleState))) =
         Some (Some ''generic User'')"
    by (simp add: Let_def s1 g)
  from C6_oauth2_precondition [OF h2, where env = throwingEnv and cfg = sampleConfig
      and st = sampleState] t2
  have c: "map_option code (error (fst (authenticate throwingEnv sampleConfig oauth2NoRedirect sampleState))) =
       Some ''OAUTH2_AUTH_ERROR''
   \<and> sessions (sessionManager (snd (authenticate throwingEnv sampleConfig oauth2NoRedirect sampleState)))
       ''session_5501_uuid0'' \<noteq> None"
    by (simp add: Let_def s2 st sample_ids)
  from h1 n1 a h2 t2 b c show ?thesis by simp
qed

text \<open>
  C6 as stated fails twice. A request with client id and client secret but neither redirect
  URI nor provider name succeeds, with a session and a token; and a request without client
  id fails with the code \<open>AUTH_METHOD_REQUIRED\<close>, not with a code for a missing OAuth2
  configuration.
\<close>

theorem C6_counterexample:
  "success (fst (authenticate sampleEnv sampleConfig oauth2NoRedirect sampleState))
   \<and> res_sessionId (fst (authenticate sampleEnv sampleConfig oauth2NoRedirect sampleState)) =
       Some ''session_5501_uuid0''
   \<and> token (fst (authenticate sampleEnv sampleConfig oauth2NoRedirect sampleState)) = Some ''tok''
   \<and> map_option code (error (fst (authenticate sampleEnv sampleConfig oauth2NoClient sampleState))) =
       Some ''AUTH_METHOD_REQUIRED''"
  by (simp add: authenticate_def authenticateOAuth2_def call_createSession_def createSession_def
        dateNow_def drawUuid_def failure_def truthy_def orElse_def Let_def
        oauth2NoRedirect_def oauth2NoClient_def request0_def sampleEnv_def sampleState_def
        sampleConfig_def show_int_def show_nat.simps digit_char_def)

lemma call_validate_Some:
  assumes "fst (call_validateSession env sid st) = Some s"
  shows "\<exists>s0. sessions (sessionManager st) sid = Some s0 \<and> \<not> expiresAt s0 < clock env (clockReads st)
           \<and> s = s0\<lparr> lastAccessedAt := clock env (clockReads st) \<rparr>
           \<and> snd (call_validateSession env sid st) =
               st\<lparr> clockReads := Suc (clockReads st),
                    sessionManager := (sessionManager st)\<lparr> sessions := (sessions (sessionManager st))(sid \<mapsto> s) \<rparr> \<rparr>"
  using assms
  by (auto simp add: call_validateSession_def validateSession_def dateNow_def Let_def
        split: option.splits if_splits)

lemma call_create_result:
  "\<exists>s' st'. call_createSession env u perms st = (s', st')
      \<and> sessions (sessionManager st') (session_id s') = Some s'
      \<and> user s' = u \<and> session_permissions s' = perms
      \<and> uuidDraws st' = Suc (uuidDraws st)"
  by (simp add: call_createSession_def createSession_def dateNow_def drawUuid_def Let_def)

lemma call_validate_uuid: "uuidDraws (snd (call_validateSession env sid st)) = uuidDraws st"
  by (simp add: call_validateSession_def validateSession_def dateNow_def Let_def
        split: option.splits)

text \<open>
  C7 (as amended). Let \<^verbatim>\<open>jwt.verify\<close> accept the token with claims \<open>decoded\<close>. If the claims
  carry a non-empty \<open>sessionId\<close> that validates, to the session \<open>s\<close>, then \<open>authenticateJWT\<close>
  succeeds with the id and the expiry of \<open>s\<close>, which is the stored session with
  \<open>lastAccessedAt\<close> set to the time of the call, while the user and the permissions of the
  result are those built from the claims; no session is created: the table changes at
  that key only, and no uuid is drawn. If the claims carry no \<open>sessionId\<close> or it does not
  validate, a session is created and stored for the user built from the claims, and its
  id and expiry are returned.
\<close>

theorem C7_jwt_session_reuse:
  assumes "jwt_verify env tok (jwtSecret cfg) = Inr decoded"
  shows "(truthy (claim_sessionId decoded)
            \<and> fst (call_validateSession env (the (claim_sessionId decoded)) st) = Some s \<longrightarrow>
            (case authenticateJWT env cfg tok st of
               (r, st') \<Rightarrow> success r \<and> token r = Some tok
                 \<and> res_sessionId r = Some (session_id s) \<and> res_expiresAt r = Some (expiresAt s)
                 \<and> res_user r = Some (jwtUser decoded)
                 \<and> res_permissions r = Some (user_permissions (jwtUser decoded))
                 \<and> (\<exists>s0. sessions (sessionManager st) (the (claim_sessionId decoded)) = Some s0
                        \<and> s = s0\<lparr> lastAccessedAt := clock env (clockReads st) \<rparr>)
                 \<and> sessions (sessionManager st') =
                     (sessions (sessionManager st))(the (claim_sessionId decoded) \<mapsto> s)
                 \<and> uuidDraws st' = uuidDraws st))
       \<and> (\<not> truthy (claim_sessionId decoded)
            \<or> fst (call_validateSession env (the (claim_sessionId decoded)) st) = None \<longrightarrow>
            (case authenticateJWT env cfg tok st of
               (r, st') \<Rightarrow> success r \<and> token r = Some tok
                 \<and> res_user r = Some (jwtUser decoded)
                 \<and> uuidDraws st' = Suc (uuidDraws st)
                 \<and> (\<exists>s'. res_sessionId r = Some (session_id s')
                        \<and> res_expiresAt r = Some (expiresAt s')
                        \<and> sessions (sessionManager st') (session_id s') = Some s'
                        \<and> user s' = jwtUser decoded
                        \<and> session_permissions s' = user_permissions (jwtUser decoded))))"
proof (intro conjI impI)
  let ?sid = "the (claim_sessionId decoded)"
  assume h: "truthy (claim_sessionId decoded) \<and> fst (call_validateSession env ?sid st) = Some s"
  from call_validate_Some [of env ?sid st s] h obtain s0 where
      s0: "sessions (sessionManager st) ?sid = Some s0"
          "s = s0\<lparr> lastAccessedAt := clock env (clockReads st) \<rparr>"
      and st': "snd (call_validateSession env ?sid st) =
               st\<lparr> clockReads := Suc (clockReads st),
                    sessionManager := (sessionManager st)\<lparr> sessions := (sessions (sessionManager st))(?sid \<mapsto> s) \<rparr> \<rparr>"
    by blast
  obtain st1 where v: "call_validateSession env ?sid st = (Some s, st1)"
    using h by (cases "call_validateSession env ?sid st") simp
  with st' have st1: "st1 = st\<lparr> clockReads := Suc (clockReads st),
                    sessionManager := (sessionManager st)\<lparr> sessions := (sessions (sessionManager st))(?sid \<mapsto> s) \<rparr> \<rparr>"
    by simp
  have "authenticateJWT env cfg tok st =
          (\<lparr> success = True, res_sessionId = Some (session_id s), token = Some tok,
             res_expiresAt = Some (expiresAt s),
             res_permissions = Some (user_permissions (jwtUser decoded)),
             res_user = Some (jwtUser decoded), authSteps = None, totalDuration = None,
             securityLevel = None, error = None \<rparr>, st1)"
    using assms h v by (simp add: authenticateJWT_def Let_def)
  then show "case authenticateJWT env cfg tok st of
               (r, st') \<Rightarrow> success r \<and> token r = Some tok
                 \<and> res_sessionId r = Some (session_id s) \<and> res_expiresAt r = Some (expiresAt s)
                 \<and> res_user r = Some (jwtUser decoded)
                 \<and> res_permissions r = Some (user_permissions (jwtUser decoded))
                 \<and> (\<exists>s0. sessions (sessionManager st) ?sid = Some s0
                        \<and> s = s0\<lparr> lastAccessedAt := clock env (clockReads st) \<rparr>)
                 \<and> sessions (sessionManager st') = (sessions (sessionManager st))(?sid \<mapsto> s)
                 \<and> uuidDraws st' = uuidDraws st"
    using s0 st1 by simp
next
  let ?sid = "the (claim_sessionId decoded)"
  let ?u = "jwtUser decoded"
  assume h: "\<not> truthy (claim_sessionId decoded) \<or> fst (call_validateSession env ?sid st) = None"
  define st1 where "st1 = (if truthy (claim_sessionId decoded)
                           then snd (call_validateSession env ?sid st) else st)"
  have f: "(if truthy (claim_sessionId decoded) then call_validateSession env ?sid st else (None, st))
             = (None, st1)"
    using h by (cases "call_validateSession env ?sid st") (auto simp add: st1_def)
  have u1: "uuidDraws st1 = uuidDraws st"
    by (simp add: st1_def call_validate_uuid)
  from call_create_result [of env ?u "user_permissions ?u" st1]
  obtain s' st2 where c: "call_createSession env ?u (user_permissions ?u) st1 = (s', st2)"
      and s': "sessions (sessionManager st2) (session_id s') = Some s'" "user s' = ?u"
              "session_permissions s' = user_permissions ?u" "uuidDraws st2 = Suc (uuidDraws st1)"
    by blast
  have "authenticateJWT env cfg tok st =
          (\<lparr> success = True, res_sessionId = Some (session_id s'), token = Some tok,
             res_expiresAt = Some (expiresAt s'),
             res_permissions = Some (user_permissions ?u),
             res_user = Some ?u, authSteps = None, totalDuration = None,
             securityLevel = None, error = None \<rparr>, st2)"
    using assms f c by (simp add: authenticateJWT_def Let_def)
  then show "case authenticateJWT env cfg tok st of
               (r, st') \<Rightarrow> success r \<and> token r = Some tok
                 \<and> res_user r = Some (jwtUser decoded)
                 \<and> uuidDraws st' = Suc (uuidDraws st)
                 \<and> (\<exists>s'. res_sessionId r = Some (session_id s')
                        \<and> res_expiresAt r = Some (expiresAt s')
                        \<and> sessions (sessionManager st') (session_id s') = Some s'
                        \<and> user s' = jwtUser decoded
                        \<and> session_permissions s' = user_permissions (jwtUser decoded))"
    using s' u1 by auto
qed

lemma sample_validate:
  "call_validateSession sampleEnv ''session_5000_u1'' sampleState =
     (Some \<lparr> session_id = ''session_5000_u1'', userId = ''user_1'', user = sampleUser,
             createdAt = 5000, expiresAt = 6000, lastAccessedAt = 5500,
             session_permissions = [''basic''], metadata = [] \<rparr>,
      sampleState\<lparr> clockReads := 1,
         sessionManager := sm1\<lparr> sessions := (sessions sm1)(''session_5000_u1'' \<mapsto>
            \<lparr> session_id = ''session_5000_u1'', userId = ''user_1'', user = sampleUser,
              createdAt = 5000, expiresAt = 6000, lastAccessedAt = 5500,
              session_permissions = [''basic''], metadata = [] \<rparr>) \<rparr> \<rparr>)"
  by (simp add: call_validateSession_def validateSession_def dateNow_def Let_def
        sampleState_def sampleEnv_def sm1_sessions)

theorem C7_jwt_session_reuse_witness:
  "jwt_verify sampleEnv ''tok'' (jwtSecret sampleConfig) =
       Inr \<lparr> claim_userId = ''user_1'', claim_permissions = Some [''basic''],
             claim_sessionId = Some ''session_5000_u1'' \<rparr>
   \<and> fst (call_validateSession sampleEnv ''session_5000_u1'' sampleState) \<noteq> None
   \<and> res_sessionId (fst (authenticateJWT sampleEnv sampleConfig ''tok'' sampleState)) =
       Some ''session_5000_u1''
   \<and> uuidDraws (snd (authenticateJWT sampleEnv sampleConfig ''tok'' sampleState)) = 0
   \<and> fst (call_validateSession sampleEnv ''session_5000_u1'' emptyState) = None
   \<and> uuidDraws (snd (authenticateJWT sampleEnv sampleConfig ''tok'' emptyState)) = 1"
proof -
  let ?d = "\<lparr> claim_userId = ''user_1'', claim_permissions = Some [''basic''],
               claim_sessionId = Some ''session_5000_u1'' \<rparr>"
  let ?s = "\<lparr> session_id = ''session_5000_u1'', userId = ''user_1'', user = sampleUser,
             createdAt = 5000, expiresAt = 6000, lastAccessedAt = 5500,
             session_permissions = [''basic''], metadata = [] \<rparr>"
  have v: "jwt_verify sampleEnv ''tok'' (jwtSecret sampleConfig) = Inr ?d"
    by (simp add: sampleEnv_def)
  have p1: "truthy (claim_sessionId ?d)
            \<and> fst (call_validateSession sampleEnv (the (claim_sessionId ?d)) sampleState) = Some ?s"
    by (simp add: truthy_def sample_validate)
  have p2: "fst (call_validateSession sampleEnv (the (claim_sessionId ?d)) emptyState) = None"
    by (simp add: call_validateSession_def emptyState_def newAuthService_def newSessionManager_def)
  from C7_jwt_session_reuse [OF v, where s = ?s and st = sampleState] p1
  have a: "res_sessionId (fst (authenticateJWT sampleEnv sampleConfig ''tok'' sampleState)) =
             Some ''session_5000_u1''
           \<and> uuidDraws (snd (authenticateJWT sampleEnv sampleConfig ''tok'' sampleState)) = 0"
    by (simp add: split_beta sampleState_def)
  from C7_jwt_session_reuse [OF v, where s = ?s and st = emptyState] p2
  have b: "uuidDraws (snd (authenticateJWT sampleEnv sampleConfig ''tok'' emptyState)) = 1"
    by (simp add: split_beta emptyState_def newAuthService_def)
  from v p1 p2 a b show ?thesis by simp
qed

text \<open>
  C7 as stated fails on the data returned: for the token of a session that the API-key
  tier created, the JWT tier reuses the session id, but the user it returns is built from
  the claims (name \<open>JWT User\<close>, role \<open>jwt_user\<close>) and is not the user of the stored session.
\<close>

theorem C7_counterexample:
  "res_sessionId (fst (authenticateJWT sampleEnv sampleConfig ''tok'' sampleState)) =
     Some ''session_5000_u1''
   \<and> map_option user (sessions (sessionManager sampleState) ''session_5000_u1'') = Some sampleUser
   \<and> res_user (fst (authenticateJWT sampleEnv sampleConfig ''tok'' sampleState)) =
       Some \<lparr> user_id = ''user_1'', email = None, name = Some ''JWT User'',
              user_permissions = [''basic''], roles = [''jwt_user''] \<rparr>
   \<and> res_user (fst (authenticateJWT sampleEnv sampleConfig ''tok'' sampleState)) \<noteq> Some sampleUser"
proof -
  have v: "jwt_verify sampleEnv ''tok'' (jwtSecret sampleConfig) =
             Inr \<lparr> claim_userId = ''user_1'', claim_permissions = Some [''basic''],
                   claim_sessionId = Some ''session_5000_u1'' \<rparr>"
    by (simp add: sampleEnv_def)
  show ?thesis
    by (simp add: authenticateJWT_def v truthy_def sample_validate jwtUser_def Let_def
          sampleUser_def)
       (simp add: sampleState_def sm1_sessions sampleUser_def)
qed

section \<open>Password hashing and strength\<close>

text \<open>
  C8 (as amended). Both \<open>verifyPassword\<close> functions return a boolean for every password and
  every hash string and never throw; on a hash string that does not decode they return
  false. \<open>PasswordUtils.verifyPassword\<close> returns true exactly when the password re-derives
  the key embedded in the hash string; \<open>verifyPassword\<close> of \<^verbatim>\<open>password-hashing.ts\<close> returns
  true exactly when, in addition, the password and the hash string are not empty.
\<close>

theorem C8_verify_total:
  "(\<exists>b. verifyPassword lib password h = Inr b)
   \<and> (\<exists>b. PasswordUtils_verifyPassword lib password h = Inr b)
   \<and> (decode lib h = None \<longrightarrow>
         verifyPassword lib password h = Inr False
       \<and> PasswordUtils_verifyPassword lib password h = Inr False)
   \<and> PasswordUtils_verifyPassword lib password h = Inr (rederives lib password h)
   \<and> verifyPassword lib password h = Inr (password \<noteq> [] \<and> h \<noteq> [] \<and> rederives lib password h)"
  by (auto simp add: verifyPassword_def PasswordUtils_verifyPassword_def argon2_verify_def
        rederives_def split: option.splits)

theorem C8_verify_total_witness:
  "decode toyArgon2 ''invalid-hash-format'' = None
   \<and> verifyPassword toyArgon2 ''password'' ''invalid-hash-format'' = Inr False
   \<and> PasswordUtils_verifyPassword toyArgon2 ''password'' ''invalid-hash-format'' = Inr False"
proof -
  have d: "decode toyArgon2 ''invalid-hash-format'' = None"
    by (simp add: toyArgon2_def)
  from C8_verify_total [of toyArgon2 "''password''" "''invalid-hash-format''"] d
  show ?thesis by simp
qed

text \<open>
  C8 as stated fails for the empty password in \<^verbatim>\<open>password-hashing.ts\<close>: with a hash string
  whose key was derived from the empty password, the password re-derives the key, yet
  \<open>verifyPassword\<close> returns false, where \<open>PasswordUtils.verifyPassword\<close> returns true.
\<close>

theorem C8_counterexample:
  "rederives toyArgon2 [] ''$toy$'' \<and> verifyPassword toyArgon2 [] ''$toy$'' = Inr False
   \<and> PasswordUtils_verifyPassword toyArgon2 [] ''$toy$'' = Inr True"
  by (simp add: rederives_def verifyPassword_def PasswordUtils_verifyPassword_def argon2_verify_def
        toyArgon2_def)

text \<open>
  C9 (as amended). \<open>hashPassword\<close> of \<^verbatim>\<open>password-hashing.ts\<close>, which takes no configuration,
  fails on the empty password and returns no hash string, whatever the library does.
  \<open>PasswordUtils.hashPassword\<close> checks neither the password nor the configuration: it hands
  the password and the four fields of the supplied configuration unchanged to
  \<^verbatim>\<open>argon2.hash\<close>, returns the hash string \<^verbatim>\<open>argon2.hash\<close> returns, and fails exactly when
  \<^verbatim>\<open>argon2.hash\<close> throws, then with the error \<open>Password hashing failed: \<close> followed by the
  message thrown and without a hash string. So a configuration with a field that is not
  positive makes the call fail if \<^verbatim>\<open>argon2.hash\<close> rejects such parameters.
\<close>

theorem C9_hash_preconditions:
  "(\<exists>e. hashPassword lib [] = Inl e)
   \<and> hashOptions (Some c) =
       \<lparr> opt_memoryCost = memoryCost c, opt_timeCost = timeCost c, opt_parallelism = parallelism c,
         opt_hashLength = hashLength c, opt_saltLength = 32 \<rparr>
   \<and> ((\<exists>e. PasswordUtils_hashPassword lib password config = Inl e) =
        (\<exists>msg. argon2_hash lib password (hashOptions config) = Inl msg))
   \<and> (\<forall>msg. argon2_hash lib password (hashOptions config) = Inl msg \<longrightarrow>
          PasswordUtils_hashPassword lib password config = Inl (''Password hashing failed: '' @ msg))
   \<and> (\<forall>h. argon2_hash lib password (hashOptions config) = Inr h \<longrightarrow>
          PasswordUtils_hashPassword lib password config = Inr h)
   \<and> ((\<forall>pw opts. opt_memoryCost opts \<le> 0 \<or> opt_timeCost opts \<le> 0 \<or> opt_parallelism opts \<le> 0
                    \<or> opt_hashLength opts \<le> 0 \<longrightarrow> (\<exists>msg. argon2_hash lib pw opts = Inl msg)) \<longrightarrow>
       (memoryCost c \<le> 0 \<or> timeCost c \<le> 0 \<or> parallelism c \<le> 0 \<or> hashLength c \<le> 0 \<longrightarrow>
          (\<exists>msg. PasswordUtils_hashPassword lib password (Some c) =
                    Inl (''Password hashing failed: '' @ msg))))"
proof (intro conjI)
  show "\<exists>e. hashPassword lib [] = Inl e"
    by (simp add: hashPassword_def)
  show o: "hashOptions (Some c) =
       \<lparr> opt_memoryCost = memoryCost c, opt_timeCost = timeCost c, opt_parallelism = parallelism c,
         opt_hashLength = hashLength c, opt_saltLength = 32 \<rparr>"
    by (simp add: hashOptions_def)
  show "(\<exists>e. PasswordUtils_hashPassword lib password config = Inl e) =
        (\<exists>msg. argon2_hash lib password (hashOptions config) = Inl msg)"
    by (cases "argon2_hash lib password (hashOptions config)")
       (simp_all add: PasswordUtils_hashPassword_def)
  show "\<forall>msg. argon2_hash lib password (hashOptions config) = Inl msg \<longrightarrow>
          PasswordUtils_hashPassword lib password config = Inl (''Password hashing failed: '' @ msg)"
    by (simp add: PasswordUtils_hashPassword_def)
  show "\<forall>h. argon2_hash lib password (hashOptions config) = Inr h \<longrightarrow>
          PasswordUtils_hashPassword lib password config = Inr h"
    by (simp add: PasswordUtils_hashPassword_def)
  show "(\<forall>pw opts. opt_memoryCost opts \<le> 0 \<or> opt_timeCost opts \<le> 0 \<or> opt_parallelism opts \<le> 0
                    \<or> opt_hashLength opts \<le> 0 \<longrightarrow> (\<exists>msg. argon2_hash lib pw opts = Inl msg)) \<longrightarrow>
       (memoryCost c \<le> 0 \<or> timeCost c \<le> 0 \<or> parallelism c \<le> 0 \<or> hashLength c \<le> 0 \<longrightarrow>
          (\<exists>msg. PasswordUtils_hashPassword lib password (Some c) =
                    Inl (''Password hashing failed: '' @ msg)))"
  proof (intro impI)
    assume rej: "\<forall>pw opts. opt_memoryCost opts \<le> 0 \<or> opt_timeCost opts \<le> 0 \<or> opt_parallelism opts \<le> 0
                    \<or> opt_hashLength opts \<le> 0 \<longrightarrow> (\<exists>msg. argon2_hash lib pw opts = Inl msg)"
    assume bad: "memoryCost c \<le> 0 \<or> timeCost c \<le> 0 \<or> parallelism c \<le> 0 \<or> hashLength c \<le> 0"
    then have "opt_memoryCost (hashOptions (Some c)) \<le> 0 \<or> opt_timeCost (hashOptions (Some c)) \<le> 0
                 \<or> opt_parallelism (hashOptions (Some c)) \<le> 0 \<or> opt_hashLength (hashOptions (Some c)) \<le> 0"
      by (simp add: o)
    with rej obtain msg where "argon2_hash lib password (hashOptions (Some c)) = Inl msg"
      by blast
    then show "\<exists>msg. PasswordUtils_hashPassword lib password (Some c) =
                    Inl (''Password hashing failed: '' @ msg)"
      by (simp add: PasswordUtils_hashPassword_def)
  qed
qed

theorem C9_hash_preconditions_witness:
  "memoryCost badConfig \<le> 0
   \<and> argon2_hash toyArgon2 ''test'' (hashOptions (Some badConfig)) = Inl ''Invalid parameters''
   \<and> PasswordUtils_hashPassword toyArgon2 ''test'' (Some badConfig) =
       Inl ''Password hashing failed: Invalid parameters''
   \<and> argon2_hash toyArgon2 ''test'' (hashOptions None) = Inr ''$toy$test''
   \<and> PasswordUtils_hashPassword toyArgon2 ''test'' None = Inr ''$toy$test''
   \<and> (\<exists>msg. PasswordUtils_hashPassword toyArgon2 ''secret'' (Some badConfig) =
               Inl (''Password hashing failed: '' @ msg))"
proof -
  have a: "argon2_hash toyArgon2 ''test'' (hashOptions (Some badConfig)) = Inl ''Invalid parameters''"
    by (simp add: toyArgon2_def hashOptions_def badConfig_def)
  have b: "argon2_hash toyArgon2 ''test'' (hashOptions None) = Inr ''$toy$test''"
    by (simp add: toyArgon2_def hashOptions_def defaultConfig_def)
  have rej: "\<forall>pw opts. opt_memoryCost opts \<le> 0 \<or> opt_timeCost opts \<le> 0 \<or> opt_parallelism opts \<le> 0
                    \<or> opt_hashLength opts \<le> 0 \<longrightarrow> (\<exists>msg. argon2_hash toyArgon2 pw opts = Inl msg)"
    by (simp add: toyArgon2_def)
  have bad: "memoryCost badConfig \<le> 0"
    by (simp add: badConfig_def)
  from C9_hash_preconditions [of toyArgon2 badConfig "''secret''" "Some badConfig"] rej bad
  have c: "\<exists>msg. PasswordUtils_hashPassword toyArgon2 ''secret'' (Some badConfig) =
               Inl (''Password hashing failed: '' @ msg)"
    by blast
  from C9_hash_preconditions [of toyArgon2 badConfig "''test''" "Some badConfig"]
       C9_hash_preconditions [of toyArgon2 badConfig "''test''" None] a b bad c
  show ?thesis by simp
qed

text \<open>
  C9 as stated fails for \<open>PasswordUtils.hashPassword\<close> in both halves. With a library that
  hashes the empty password, the call on the empty password returns a hash string; and
  with a library that accepts them, the call with a configuration whose four fields are
  not positive returns a hash string, because the function itself rejects nothing. The
  failure of \<open>hashPassword\<close> of \<^verbatim>\<open>password-hashing.ts\<close> on the empty password carries the
  message of its \<^verbatim>\<open>catch\<close> block.
\<close>

theorem C9_counterexample:
  "PasswordUtils_hashPassword toyArgon2 [] None = Inr ''$toy$''
   \<and> memoryCost badConfig \<le> 0 \<and> timeCost badConfig \<le> 0 \<and> parallelism badConfig \<le> 0
   \<and> hashLength badConfig \<le> 0
   \<and> PasswordUtils_hashPassword lenientArgon2 ''test'' (Some badConfig) = Inr ''$toy$test''
   \<and> hashPassword toyArgon2 [] = Inl ''Failed to hash password''"
  by (simp add: PasswordUtils_hashPassword_def hashPassword_def toyArgon2_def lenientArgon2_def
        hashOptions_def defaultConfig_def badConfig_def)

lemma PasswordUtils_score: "score (PasswordUtils_validatePasswordStrength p) = criteriaMet p"
  by (simp add: PasswordUtils_validatePasswordStrength_def criteriaMet_def criteria_def Let_def)

lemma validate_score: "score (validatePasswordStrength p) = criteriaMet p"
  by (simp add: validatePasswordStrength_def criteriaMet_def criteria_def Let_def)

lemma criteriaMet_le: "criteriaMet p \<le> 7"
proof -
  have "criteriaMet p \<le> length criteria"
    unfolding criteriaMet_def by (rule length_filter_le)
  then show ?thesis by (simp add: criteria_def)
qed

lemma PasswordUtils_valid: "isValid (PasswordUtils_validatePasswordStrength p) = (6 \<le> criteriaMet p)"
  by (simp add: PasswordUtils_validatePasswordStrength_def criteriaMet_def criteria_def Let_def)

lemma PasswordUtils_feedback:
  "feedback (PasswordUtils_validatePasswordStrength p) =
     (if 6 \<le> criteriaMet p then [''Password strength is good''] else unmet PasswordUtils_messages p)"
  by (simp add: PasswordUtils_validatePasswordStrength_def criteriaMet_def criteria_def Let_def
        unmet_def PasswordUtils_messages_def)

lemma validate_feedback: "feedback (validatePasswordStrength p) = unmet messages p"
  by (simp add: validatePasswordStrength_def Let_def unmet_def messages_def)

lemma validate_valid:
  "isValid (validatePasswordStrength p) = (5 \<le> criteriaMet p \<and> unmet messages p = [])"
  by (simp add: validatePasswordStrength_def criteriaMet_def criteria_def Let_def unmet_def
        messages_def)

text \<open>
  C10 (as amended). For every password, both functions give as score the number of
  satisfied criteria among the seven (length at least 8, length at least 12, a lowercase
  letter, an uppercase letter, a digit, a symbol, no code unit other than a line terminator
  three or more times in a row), so the score is at most 7. \<open>PasswordUtils\<close> is valid from
  score 6 and then returns the single message \<open>Password strength is good\<close>; otherwise its
  feedback lists, in order, the messages of the unmet criteria other than length 12, which
  has no message. \<open>validatePasswordStrength\<close> of \<^verbatim>\<open>password-hashing.ts\<close> always returns that
  list of messages, and is valid when the score is at least 5 and the list is empty.
\<close>

theorem C10_strength_score:
  "score (PasswordUtils_validatePasswordStrength p) = criteriaMet p
   \<and> score (validatePasswordStrength p) = criteriaMet p
   \<and> criteriaMet p \<le> 7
   \<and> isValid (PasswordUtils_validatePasswordStrength p) = (6 \<le> criteriaMet p)
   \<and> feedback (PasswordUtils_validatePasswordStrength p) =
       (if 6 \<le> criteriaMet p then [''Password strength is good'']
        else unmet PasswordUtils_messages p)
   \<and> feedback (validatePasswordStrength p) = unmet messages p
   \<and> isValid (validatePasswordStrength p) = (5 \<le> criteriaMet p \<and> unmet messages p = [])"
  using PasswordUtils_score validate_score criteriaMet_le PasswordUtils_valid PasswordUtils_feedback
    validate_feedback validate_valid
  by blast

lemma criteriaMet_strong: "criteriaMet ''Abcdefgh1!xy'' = 7"
  by (simp add: criteriaMet_def criteria_def isLower_def isUpper_def isDigit_def isSymbol_def
        isLineTerminator_def)

theorem C10_strength_score_witness:
  "score (PasswordUtils_validatePasswordStrength ''Abcdefgh1!xy'') = 7
   \<and> feedback (PasswordUtils_validatePasswordStrength ''Abcdefgh1!xy'') = [''Password strength is good'']
   \<and> feedback (validatePasswordStrength ''Abcdefgh1!xy'') = []"
proof -
  have u: "unmet messages ''Abcdefgh1!xy'' = []"
    by (simp add: unmet_def messages_def isLower_def isUpper_def isDigit_def isSymbol_def
        isLineTerminator_def)
  from C10_strength_score [of "''Abcdefgh1!xy''"] criteriaMet_strong u show ?thesis by simp
qed

text \<open>
  C10 as stated fails in three ways. The password \<open>abcdefgh\<close> misses four criteria, among
  them length 12, and the feedback of \<open>PasswordUtils\<close> has three messages, none about length
  12. The password \<open>Abcdefgh1!xy\<close> is valid for \<open>validatePasswordStrength\<close> of
  \<^verbatim>\<open>password-hashing.ts\<close>, whose feedback is then the empty list, not one affirmative
  message. And a password of three line feeds scores 2, one point for a symbol and one for
  the run criterion, although it is a run of three identical characters, and the feedback
  does not name that criterion.
\<close>

theorem C10_counterexample:
  "feedback (PasswordUtils_validatePasswordStrength ''abcdefgh'') =
     [''Include uppercase letters'', ''Include numbers'', ''Include special characters'']
   \<and> \<not> 12 \<le> length ''abcdefgh''
   \<and> isValid (validatePasswordStrength ''Abcdefgh1!xy'')
   \<and> feedback (validatePasswordStrength ''Abcdefgh1!xy'') = []
   \<and> score (validatePasswordStrength [CHR 0x0A, CHR 0x0A, CHR 0x0A]) = 2
   \<and> feedback (validatePasswordStrength [CHR 0x0A, CHR 0x0A, CHR 0x0A]) =
       [''Password must be at least 8 characters long'', ''Password must contain lowercase letters'',
        ''Password must contain uppercase letters'', ''Password must contain numbers'']"
  by (simp add: PasswordUtils_validatePasswordStrength_def validatePasswordStrength_def Let_def
        isLower_def isUpper_def isDigit_def isSymbol_def isLineTerminator_def)

end
